theory Spec2Isabelle
  imports Main
begin

section \<open>The SSH communicator: data model\<close>

text \<open>
  A shallow embedding of \<^verbatim>\<open>communicator/ssh/communicator.go\<close>. Bytes are
  \<^typ>\<open>char\<close>s, Go strings and byte slices are \<^typ>\<open>string\<close>s. The objects of
  the collaborating packages (\<^verbatim>\<open>net.Conn\<close>, \<^verbatim>\<open>*ssh.ClientConn\<close>,
  \<^verbatim>\<open>*ssh.Session\<close>) are handles; what the collaborators answer is given by
  an environment of oracles (see \<open>env\<close> below).
\<close>

type_synonym byte = char
type_synonym conn = nat
type_synonym client = nat
type_synonym session = nat

text \<open>
  Go error values, by dynamic type and content. \<open>errors_New s\<close> is what
  \<^verbatim>\<open>errors.New(s)\<close> and \<^verbatim>\<open>fmt.Errorf\<close> build; \<open>io_EOF\<close> is the sentinel
  \<^verbatim>\<open>io.EOF\<close>; \<open>ssh_ExitError st txt\<close> is an \<^verbatim>\<open>*ssh.ExitError\<close> whose
  \<^verbatim>\<open>ExitStatus()\<close> is \<open>st\<close> and whose \<^verbatim>\<open>Error()\<close> text is \<open>txt\<close>;
  \<open>Foreign txt\<close> is any other error of a collaborator, with its text; \<open>Panic\<close> stands
  for a run-time panic.
\<close>

datatype error =
    errors_New string
  | io_EOF
  | ssh_ExitError int string
  | Foreign string
  | Panic string

fun Error :: "error \<Rightarrow> string" where
  "Error (errors_New s) = s"
| "Error io_EOF = ''EOF''"
| "Error (ssh_ExitError st txt) = txt"
| "Error (Foreign txt) = txt"
| "Error (Panic txt) = txt"

subsection \<open>Decimal rendering of a length\<close>

text \<open>\<^verbatim>\<open>fmt.Fprintln\<close> prints the non-negative \<^verbatim>\<open>int\<close> of \<^verbatim>\<open>inputBuf.Len()\<close> in base 10.\<close>

definition digit :: "nat \<Rightarrow> char" where
  "digit d = ''0123456789'' ! d"

fun decimal :: "nat \<Rightarrow> string" where
  "decimal n = (if n < 10 then [digit n] else decimal (n div 10) @ [digit (n mod 10)])"

declare decimal.simps [simp del]

text \<open>Reading a decimal numeral back, as the receiving sink does.\<close>

definition digit_val :: "char \<Rightarrow> nat" where
  "digit_val c = of_char c - 48"

definition undecimal :: "string \<Rightarrow> nat" where
  "undecimal s = foldl (\<lambda>acc c. 10 * acc + digit_val c) 0 s"

subsection \<open>The protocol channel\<close>

text \<open>
  The transfer callbacks talk to the remote sink through an \<^verbatim>\<open>io.Writer\<close> (the
  session's stdin pipe) and a \<^verbatim>\<open>*bufio.Reader\<close> (over its stdout pipe). A \<open>chan\<close>
  holds both: \<open>pending\<close> are the bytes the sink still delivers, \<open>rerr\<close> the error the
  reader reports once they are used up, \<open>bufsize\<close> the size of the reader's buffer,
  \<open>wroom\<close> the number of bytes the writer still accepts before its \<^verbatim>\<open>Write\<close> fails
  with \<open>werr\<close> (\<open>None\<close>: it never fails), and \<open>wire\<close> the transcript so far: every
  byte written (\<open>Out\<close>) and every byte consumed from the reader (\<open>In\<close>), in order.
\<close>

datatype io = Out byte | In byte

record chan =
  pending :: "byte list"
  rerr :: error
  bufsize :: nat
  wroom :: "nat option"
  werr :: error
  wire :: "io list"

definition consume :: "nat \<Rightarrow> chan \<Rightarrow> chan" where
  "consume n ch = ch\<lparr>pending := drop n (pending ch),
                      wire := wire ch @ map In (take n (pending ch))\<rparr>"

text \<open>\<^verbatim>\<open>w.Write(bs)\<close>: the number of bytes written and the error.\<close>

definition Write :: "byte list \<Rightarrow> chan \<Rightarrow> (nat \<times> error option) \<times> chan" where
  "Write bs ch =
     (case wroom ch of
        None \<Rightarrow> ((length bs, None), ch\<lparr>wire := wire ch @ map Out bs\<rparr>)
      | Some k \<Rightarrow>
          if length bs \<le> k
          then ((length bs, None),
                ch\<lparr>wroom := Some (k - length bs), wire := wire ch @ map Out bs\<rparr>)
          else ((k, Some (werr ch)),
                ch\<lparr>wroom := Some 0, wire := wire ch @ map Out (take k bs)\<rparr>))"

text \<open>\<^verbatim>\<open>r.ReadByte()\<close>.\<close>

definition ReadByte :: "chan \<Rightarrow> (error + byte) \<times> chan" where
  "ReadByte ch =
     (case pending ch of
        [] \<Rightarrow> (Inl (rerr ch), ch)
      | b # bs \<Rightarrow> (Inr b, consume 1 ch))"

text \<open>
  \<^verbatim>\<open>r.ReadLine()\<close> of package bufio, returning \<^verbatim>\<open>(line, isPrefix, err)\<close>: a line
  whose newline lies within the buffer is returned without its end-of-line bytes
  (\<^verbatim>\<open>\n\<close> or \<^verbatim>\<open>\r\n\<close>); a line that does not fit is cut at the buffer size with
  \<^verbatim>\<open>isPrefix\<close> set (a carriage return at the cut is put back); at the end of the
  stream the remaining bytes are returned without error, and the stream's error when
  there are none.
\<close>

definition dropCR :: "byte list \<Rightarrow> byte list" where
  "dropCR line = (if line \<noteq> [] \<and> last line = CHR 0x0D then butlast line else line)"

definition ReadLine :: "chan \<Rightarrow> (byte list \<times> bool \<times> error option) \<times> chan" where
  "ReadLine ch =
     (let p = pending ch; n = bufsize ch in
      if CHR 0x0A \<in> set (take n p) then
        (let line = takeWhile (\<lambda>b. b \<noteq> CHR 0x0A) p
         in ((dropCR line, False, None), consume (Suc (length line)) ch))
      else if p = [] then (([], False, Some (rerr ch)), ch)
      else if n \<le> length p then
        (let line = dropCR (take n p)
         in ((line, True, None), consume (length line) ch))
      else ((p, False, None), consume (length p) ch))"

section \<open>Status codec and file upload\<close>

text \<open>\<^verbatim>\<open>checkSCPStatus\<close>: \<open>None\<close> is the \<^verbatim>\<open>nil\<close> error.\<close>

definition checkSCPStatus :: "chan \<Rightarrow> error option \<times> chan" where
  "checkSCPStatus ch =
     (case ReadByte ch of
        (Inl err, ch1) \<Rightarrow> (Some err, ch1)
      | (Inr code, ch1) \<Rightarrow>
          if code \<noteq> CHR 0x00 then
            (case ReadLine ch1 of
               ((message, _, Some err), ch2) \<Rightarrow>
                 (Some (errors_New (''Error reading error message: '' @ Error err)), ch2)
             | ((message, _, None), ch2) \<Rightarrow> (Some (errors_New message), ch2))
          else (None, ch1))"

text \<open>
  An \<^verbatim>\<open>io.Reader\<close> given as upload source: the bytes it delivers and the error
  that ends it (\<open>None\<close>: a clean end of file).
\<close>

type_synonym reader = "byte list \<times> error option"

text \<open>\<^verbatim>\<open>fmt.Fprintln(w, "C0644", inputBuf.Len(), dst)\<close>: operands separated by blanks, then a newline.\<close>

definition file_header :: "nat \<Rightarrow> string \<Rightarrow> byte list" where
  "file_header len dst = ''C0644'' @ '' '' @ decimal len @ '' '' @ dst @ [CHR 0x0A]"

text \<open>
  \<^verbatim>\<open>io.Copy(w, inputBuf)\<close>: the buffer writes itself with one \<^verbatim>\<open>Write\<close>, and
  with none when it is empty.
\<close>

definition io_Copy_out :: "byte list \<Rightarrow> chan \<Rightarrow> error option \<times> chan" where
  "io_Copy_out buf ch =
     (if buf = [] then (None, ch)
      else (case Write buf ch of ((n, err), ch') \<Rightarrow> (err, ch')))"

definition scpUploadFile :: "string \<Rightarrow> reader \<Rightarrow> chan \<Rightarrow> error option \<times> chan" where
  "scpUploadFile dst src ch =
     (case snd src of
        Some err \<Rightarrow> (Some err, ch)
      | None \<Rightarrow>
          (let inputBuf = fst src;
               ch1 = snd (Write (file_header (length inputBuf) dst) ch)
           in case checkSCPStatus ch1 of
                (Some err, ch2) \<Rightarrow> (Some err, ch2)
              | (None, ch2) \<Rightarrow>
                  (case io_Copy_out inputBuf ch2 of
                     (Some err, ch3) \<Rightarrow> (Some err, ch3)
                   | (None, ch3) \<Rightarrow>
                       (let ch4 = snd (Write [CHR 0x00] ch3)
                        in case checkSCPStatus ch4 of
                             (Some err, ch5) \<Rightarrow> (Some err, ch5)
                           | (None, ch5) \<Rightarrow> (None, ch5)))))"

section \<open>Directory upload\<close>

text \<open>
  An \<^verbatim>\<open>os.FileInfo\<close>: the name of the entry and the type bits of its
  \<^verbatim>\<open>Mode()\<close>. \<^verbatim>\<open>Readdir\<close> describes the entry itself: a symbolic link is
  reported as a symbolic link, whatever it points to. \<^verbatim>\<open>IsDir()\<close> and
  \<^verbatim>\<open>Mode().IsRegular()\<close> read the type off the mode.
\<close>

datatype FileMode =
    ModeRegular
  | ModeDir
  | ModeSymlink
  | ModeNamedPipe
  | ModeSocket
  | ModeDevice

record FileInfo =
  Name :: string
  Mode :: FileMode

definition IsDir :: "FileInfo \<Rightarrow> bool" where
  "IsDir fi = (Mode fi = ModeDir)"


text \<open>
  An opened \<^verbatim>\<open>*os.File\<close>: what reading it delivers and what \<^verbatim>\<open>Readdir(-1)\<close>
  returns.
\<close>

record File =
  content :: reader
  listing :: "error + FileInfo list"

section \<open>Collaborators\<close>

text \<open>
  What the code does to its collaborators is recorded as a history of events, each
  call with the answer it got. \<open>Exchange s w\<close> is the transcript \<open>w\<close> of a transfer
  callback on the pipes of session \<open>s\<close>; \<open>ExitedSet st\<close> is the call
  \<^verbatim>\<open>cmd.SetExited(st)\<close>.
\<close>

datatype event =
    ConnClose conn
  | Dial "error + conn"
  | Handshake conn "error + client"
  | OpenSession client "error + session"
  | SetStdio session nat nat nat
  | RequestPty session string nat nat "(nat \<times> nat) list" "error option"
  | SessionStart session string "error option"
  | SessionWait session "error option"
  | SessionClose session
  | StdinPipe session bool
  | StdoutPipe session bool
  | StdinClose session
  | Exchange session "io list"
  | ExitedSet int

text \<open>
  The environment: what each collaborator answers, as a function of the history so
  far. A collaborator answers with a value or with an error, never with both.
  \<open>config_Connection\<close> is the \<^verbatim>\<open>Connection\<close> factory of the \<^verbatim>\<open>Config\<close>,
  \<open>ssh_Client\<close> the handshake \<^verbatim>\<open>ssh.Client(conn, SSHConfig)\<close>, \<open>client_NewSession\<close>
  the channel open; \<open>session_StdinPipe\<close> answers with the room and the error of the
  writer, \<open>session_StdoutPipe\<close> with the bytes the remote process will send and the
  error that ends them. The local file system (\<open>os_Open\<close>) and package
  \<^verbatim>\<open>path/filepath\<close> are parameters too.
\<close>

record env =
  config_Connection :: "event list \<Rightarrow> error + conn"
  ssh_Client :: "event list \<Rightarrow> conn \<Rightarrow> error + client"
  client_NewSession :: "event list \<Rightarrow> client \<Rightarrow> error + session"
  session_RequestPty :: "event list \<Rightarrow> session \<Rightarrow> error option"
  session_Start :: "event list \<Rightarrow> session \<Rightarrow> string \<Rightarrow> error option"
  session_Wait :: "event list \<Rightarrow> session \<Rightarrow> error option"
  session_StdinPipe :: "event list \<Rightarrow> session \<Rightarrow> error + (nat option \<times> error)"
  session_StdoutPipe :: "event list \<Rightarrow> session \<Rightarrow> error + (byte list \<times> error)"
  os_Open :: "string \<Rightarrow> error + File"
  filepath_Join :: "string \<Rightarrow> string \<Rightarrow> string"
  filepath_Dir :: "string \<Rightarrow> string"
  filepath_Base :: "string \<Rightarrow> string"
  filepath_ToSlash :: "string \<Rightarrow> string"

text \<open>
  The \<^verbatim>\<open>comm\<close> struct (its \<^verbatim>\<open>config\<close> never changes and is the environment),
  together with the history of events.
\<close>

record comm =
  client :: "client option"
  conn :: "conn option"
  effects :: "event list"

definition emit :: "event \<Rightarrow> comm \<Rightarrow> comm" where
  "emit e c = c\<lparr>effects := effects c @ [e]\<rparr>"

section \<open>Connection manager and session factory\<close>

definition reconnect :: "env \<Rightarrow> comm \<Rightarrow> error option \<times> comm" where
  "reconnect E c =
     (let c1 = (case conn c of Some k \<Rightarrow> emit (ConnClose k) c | None \<Rightarrow> c);
          c2 = c1\<lparr>conn := None, client := None\<rparr>;
          d = config_Connection E (effects c2);
          c3 = emit (Dial d) c2
      in case d of
           Inl err \<Rightarrow> (Some err, c3)
         | Inr k \<Rightarrow>
             (let c4 = c3\<lparr>conn := Some k\<rparr>;
                  h = ssh_Client E (effects c4) k;
                  c5 = emit (Handshake k h) c4
              in case h of
                   Inl err \<Rightarrow> (Some err, c5)
                 | Inr cl \<Rightarrow> (None, c5\<lparr>client := Some cl\<rparr>)))"

text \<open>\<^verbatim>\<open>c.client.NewSession()\<close> on a client that may be \<^verbatim>\<open>nil\<close>.\<close>

definition client_open :: "env \<Rightarrow> comm \<Rightarrow> (error + session) \<times> comm" where
  "client_open E c =
     (case client c of
        None \<Rightarrow> (Inl (Panic ''nil pointer dereference''), c)
      | Some cl \<Rightarrow>
          (let r = client_NewSession E (effects c) cl
           in (r, emit (OpenSession cl r) c)))"

text \<open>Lines 140 to 144 of \<^verbatim>\<open>newSession\<close>: the first attempt.\<close>

definition first_open :: "env \<Rightarrow> comm \<Rightarrow> (error + session) \<times> comm" where
  "first_open E c =
     (if client c = None then (Inl (errors_New ''client not available''), c)
      else client_open E c)"

definition newSession :: "env \<Rightarrow> comm \<Rightarrow> (error + session) \<times> comm" where
  "newSession E c =
     (case first_open E c of
        (Inl err, c1) \<Rightarrow>
          (case reconnect E c1 of
             (Some err', c2) \<Rightarrow> (Inl err', c2)
           | (None, c2) \<Rightarrow> client_open E c2)
      | (Inr s, c1) \<Rightarrow> (Inr s, c1))"

text \<open>\<^verbatim>\<open>New\<close>: the constructor.\<close>

definition New :: "env \<Rightarrow> error + comm" where
  "New E =
     (case reconnect E \<lparr>client = None, conn = None, effects = []\<rparr> of
        (Some err, c) \<Rightarrow> Inl err
      | (None, c) \<Rightarrow> Inr c)"

section \<open>Command execution\<close>

text \<open>
  The \<^verbatim>\<open>packer.RemoteCmd\<close> descriptor: the command text, handles of its three
  streams, and the completion slot.
\<close>

record RemoteCmd =
  Command :: string
  Stdin :: nat
  Stdout :: nat
  Stderr :: nat
  Exited :: bool
  ExitStatus :: int

text \<open>
  Modelled from the spec: \<^verbatim>\<open>RemoteCmd.SetExited\<close> of package packer is not among
  the sources. The spec describes the descriptor's completion slot as a settable integer
  exit-status field that the communicator fills with the exit status once the remote
  process has terminated.
\<close>

definition SetExited :: "int \<Rightarrow> RemoteCmd \<Rightarrow> RemoteCmd" where
  "SetExited status cmd = cmd\<lparr>Exited := True, ExitStatus := status\<rparr>"

text \<open>The terminal modes of the pty request: \<^verbatim>\<open>ssh.ECHO\<close>, \<^verbatim>\<open>ssh.TTY_OP_ISPEED\<close>, \<^verbatim>\<open>ssh.TTY_OP_OSPEED\<close>.\<close>

definition ssh_ECHO :: nat where "ssh_ECHO = 53"
definition ssh_TTY_OP_ISPEED :: nat where "ssh_TTY_OP_ISPEED = 128"
definition ssh_TTY_OP_OSPEED :: nat where "ssh_TTY_OP_OSPEED = 129"

definition termModes :: "(nat \<times> nat) list" where
  "termModes = [(ssh_ECHO, 0), (ssh_TTY_OP_ISPEED, 14400), (ssh_TTY_OP_OSPEED, 14400)]"

text \<open>
  A goroutine that has been launched and not yet run: \<open>Waiter s\<close> is the function
  literal of \<^verbatim>\<open>Start\<close> (lines 80 to 93), with the session it has captured.
\<close>

datatype goroutine = Waiter session

text \<open>\<^verbatim>\<open>Start\<close> returns its error and the goroutine it has launched, if any.\<close>

definition Start :: "env \<Rightarrow> comm \<Rightarrow> RemoteCmd \<Rightarrow> (error option \<times> goroutine option) \<times> comm" where
  "Start E c cmd =
     (case newSession E c of
        (Inl err, c1) \<Rightarrow> ((Some err, None), c1)
      | (Inr s, c1) \<Rightarrow>
          (let c2 = emit (SetStdio s (Stdin cmd) (Stdout cmd) (Stderr cmd)) c1;
               p = session_RequestPty E (effects c2) s;
               c3 = emit (RequestPty s ''xterm'' 80 40 termModes p) c2
           in case p of
                Some err \<Rightarrow> ((Some err, None), c3)
              | None \<Rightarrow>
                  (let line = Command cmd @ [CHR 0x0A];
                       st = session_Start E (effects c3) s line;
                       c4 = emit (SessionStart s line st) c3
                   in case st of
                        Some err \<Rightarrow> ((Some err, None), c4)
                      | None \<Rightarrow> ((None, Some (Waiter s)), c4))))"

text \<open>Lines 83 to 89: the exit status read off the result of \<^verbatim>\<open>session.Wait()\<close>.\<close>

definition exitStatus_of :: "error option \<Rightarrow> int" where
  "exitStatus_of w =
     (case w of
        None \<Rightarrow> 0
      | Some (ssh_ExitError st txt) \<Rightarrow> st
      | Some _ \<Rightarrow> 0)"

text \<open>
  The body of the goroutine, run at some later time on the descriptor and the history
  as they are then; the deferred \<^verbatim>\<open>session.Close()\<close> comes last.
\<close>

fun run :: "env \<Rightarrow> goroutine \<Rightarrow> RemoteCmd \<times> event list \<Rightarrow> RemoteCmd \<times> event list" where
  "run E (Waiter s) (cmd, tr) =
     (let w = session_Wait E tr s;
          tr1 = tr @ [SessionWait s w];
          exitStatus = exitStatus_of w;
          cmd' = SetExited exitStatus cmd;
          tr2 = tr1 @ [ExitedSet exitStatus]
      in (cmd', tr2 @ [SessionClose s]))"

declare run.simps [simp del]

section \<open>Transfer sessions\<close>

definition scp_missing :: string where
  "scp_missing = ''SCP failed to start. This usually means that SCP is not'' @ [CHR 0x0A] @
                 ''properly installed on the remote system.''"

text \<open>Lines 238 to 258: the result of \<^verbatim>\<open>scpSession\<close> once \<^verbatim>\<open>session.Wait()\<close> has returned.\<close>

definition wait_result :: "error option \<Rightarrow> error option" where
  "wait_result w =
     (case w of
        None \<Rightarrow> None
      | Some (ssh_ExitError st txt) \<Rightarrow>
          if st = 127 then Some (errors_New scp_missing) else Some (ssh_ExitError st txt)
      | Some err \<Rightarrow> Some err)"

text \<open>The deferred function of lines 198 to 202; the flag is \<^verbatim>\<open>stdinW != nil\<close>.\<close>

definition deferred_stdin :: "session \<Rightarrow> bool \<Rightarrow> comm \<Rightarrow> comm" where
  "deferred_stdin s stdinW c = (if stdinW then emit (StdinClose s) c else c)"

text \<open>
  \<^verbatim>\<open>scpSession\<close>. Every return runs the deferred calls registered so far, last
  registered first. The reader is a \<^verbatim>\<open>bufio.NewReader\<close>, whose buffer has 4096 bytes.
\<close>

definition scpSession ::
  "env \<Rightarrow> comm \<Rightarrow> string \<Rightarrow> (chan \<Rightarrow> error option \<times> chan) \<Rightarrow> error option \<times> comm" where
  "scpSession E c scpCommand f =
     (case newSession E c of
        (Inl err, c1) \<Rightarrow> (Some err, c1)
      | (Inr s, c1) \<Rightarrow>
          (let pin = session_StdinPipe E (effects c1) s;
               c2 = emit (StdinPipe s (\<not> isl pin)) c1
           in case pin of
                Inl err \<Rightarrow> (Some err, emit (SessionClose s) c2)
              | Inr stdinW \<Rightarrow>
                  (let pout = session_StdoutPipe E (effects c2) s;
                       c3 = emit (StdoutPipe s (\<not> isl pout)) c2
                   in case pout of
                        Inl err \<Rightarrow> (Some err, emit (SessionClose s) (deferred_stdin s True c3))
                      | Inr stdoutPipe \<Rightarrow>
                          (let st = session_Start E (effects c3) s scpCommand;
                               c4 = emit (SessionStart s scpCommand st) c3
                           in case st of
                                Some err \<Rightarrow>
                                  (Some err, emit (SessionClose s) (deferred_stdin s True c4))
                              | None \<Rightarrow>
                                  (let (r, ch) = f \<lparr>pending = fst stdoutPipe, rerr = snd stdoutPipe,
                                                    bufsize = 4096, wroom = fst stdinW,
                                                    werr = snd stdinW, wire = []\<rparr>;
                                       c5 = emit (Exchange s (wire ch)) c4
                                   in case r of
                                        Some err \<Rightarrow>
                                          (Some err,
                                           emit (SessionClose s) (deferred_stdin s True c5))
                                      | None \<Rightarrow>
                                          (let c6 = emit (StdinClose s) c5;
                                               w = session_Wait E (effects c6) s;
                                               c7 = emit (SessionWait s w) c6
                                           in (wait_result w,
                                               emit (SessionClose s)
                                                 (deferred_stdin s False c7))))))))"

text \<open>
  \<^verbatim>\<open>scpUploadDir\<close>: the loop over the entries. The local file system is one
  snapshot \<open>os_Open\<close> for the whole call.
\<close>

fun scpUploadDir :: "env \<Rightarrow> string \<Rightarrow> FileInfo list \<Rightarrow> chan \<Rightarrow> error option \<times> chan" where
  "scpUploadDir E root [] ch = (None, ch)"
| "scpUploadDir E root (fi # fs) ch =
     (if \<not> IsDir fi then
        (case os_Open E (filepath_Join E root (Name fi)) of
           Inl err \<Rightarrow> (Some err, ch)
         | Inr f \<Rightarrow>
             (case scpUploadFile (Name fi) (content f) ch of
                (Some err, ch') \<Rightarrow> (Some err, ch')
              | (None, ch') \<Rightarrow> scpUploadDir E root fs ch'))
      else scpUploadDir E root fs ch)"

definition Upload :: "env \<Rightarrow> comm \<Rightarrow> string \<Rightarrow> reader \<Rightarrow> error option \<times> comm" where
  "Upload E c path input =
     (let target_dir = filepath_Dir E path;
          target_file = filepath_Base E path;
          target_dir' = filepath_ToSlash E target_dir
      in scpSession E c (''scp -vt '' @ target_dir') (scpUploadFile target_file input))"

definition UploadDir :: "env \<Rightarrow> comm \<Rightarrow> string \<Rightarrow> string \<Rightarrow> string list \<Rightarrow> error option \<times> comm" where
  "UploadDir E c dst src excl =
     (case os_Open E src of
        Inl err \<Rightarrow> (Some err, c)
      | Inr f \<Rightarrow>
          (case listing f of
             Inl err \<Rightarrow> (Some err, c)
           | Inr entries \<Rightarrow>
               scpSession E c (''scp -rvt '' @ dst) (scpUploadDir E src entries)))"

section \<open>Observing a run\<close>

text \<open>What a writer with the given room takes of a slice.\<close>

definition accepted :: "nat option \<Rightarrow> byte list \<Rightarrow> byte list" where
  "accepted room bs = (case room of None \<Rightarrow> bs | Some k \<Rightarrow> take k bs)"

text \<open>Calls of the connection factory and channel opens in a history.\<close>

fun is_Dial :: "event \<Rightarrow> bool" where
  "is_Dial (Dial d) = True"
| "is_Dial _ = False"

fun is_OpenSession :: "event \<Rightarrow> bool" where
  "is_OpenSession (OpenSession cl r) = True"
| "is_OpenSession _ = False"

definition dials :: "comm \<Rightarrow> nat" where
  "dials c = length (filter is_Dial (effects c))"

definition opens :: "comm \<Rightarrow> nat" where
  "opens c = length (filter is_OpenSession (effects c))"

text \<open>The history as \<^verbatim>\<open>reconnect\<close> calls the factory: the old connection has been closed.\<close>

definition closing :: "comm \<Rightarrow> event list" where
  "closing c = (case conn c of Some k \<Rightarrow> effects c @ [ConnClose k] | None \<Rightarrow> effects c)"

text \<open>The exit statuses written into completion slots, in order.\<close>

fun exited :: "event \<Rightarrow> int list" where
  "exited (ExitedSet st) = [st]"
| "exited _ = []"

definition exits :: "event list \<Rightarrow> int list" where
  "exits tr = concat (map exited tr)"

text \<open>The events between two states of the communicator.\<close>

definition fresh_events :: "comm \<Rightarrow> comm \<Rightarrow> event list" where
  "fresh_events c c' = drop (length (effects c)) (effects c')"





section \<open>Package path/filepath on Unix\<close>

text \<open>
  \<^verbatim>\<open>Clean\<close> drops empty and dot elements, resolves dot-dot elements against the
  element before them (or drops them at the root), and answers with a dot for an empty
  result; \<^verbatim>\<open>Join\<close> cleans the non-empty elements put together with slashes;
  \<^verbatim>\<open>Base\<close> is the last element, without trailing slashes; \<^verbatim>\<open>Dir\<close> is the clean
  form of all but the last element; \<^verbatim>\<open>ToSlash\<close> changes nothing where the
  separator is the slash.
\<close>

fun split_slash :: "string \<Rightarrow> string list" where
  "split_slash [] = [[]]"
| "split_slash (c # cs) =
     (if c = CHR ''/'' then [] # split_slash cs
      else (case split_slash cs of
              [] \<Rightarrow> [[c]]
            | e # es \<Rightarrow> (c # e) # es))"

fun join_slash :: "string list \<Rightarrow> string" where
  "join_slash [] = []"
| "join_slash [e] = e"
| "join_slash (e # es) = e @ ''/'' @ join_slash es"

definition clean_step :: "bool \<Rightarrow> string list \<Rightarrow> string \<Rightarrow> string list" where
  "clean_step rooted st e =
     (if e = [] \<or> e = ''.'' then st
      else if e = ''..'' then
        (case st of
           [] \<Rightarrow> if rooted then [] else [''..'']
         | t # ts \<Rightarrow> if t = ''..'' then ''..'' # st else ts)
      else e # st)"

definition unix_Clean :: "string \<Rightarrow> string" where
  "unix_Clean p =
     (let rooted = (p \<noteq> [] \<and> hd p = CHR ''/'');
          st = foldl (clean_step rooted) [] (split_slash p);
          out = (if rooted then ''/'' else []) @ join_slash (rev st)
      in if out = [] then ''.'' else out)"

definition unix_Join :: "string \<Rightarrow> string \<Rightarrow> string" where
  "unix_Join a b =
     (if a \<noteq> [] then unix_Clean (a @ ''/'' @ b)
      else if b \<noteq> [] then unix_Clean b
      else [])"

definition unix_Base :: "string \<Rightarrow> string" where
  "unix_Base p =
     (if p = [] then ''.''
      else (let q = rev (dropWhile (\<lambda>c. c = CHR ''/'') (rev p));
                b = rev (takeWhile (\<lambda>c. c \<noteq> CHR ''/'') (rev q))
            in if b = [] then ''/'' else b))"

definition unix_Dir :: "string \<Rightarrow> string" where
  "unix_Dir p = unix_Clean (rev (dropWhile (\<lambda>c. c \<noteq> CHR ''/'') (rev p)))"

definition unix_ToSlash :: "string \<Rightarrow> string" where
  "unix_ToSlash p = p"

section \<open>Scenarios\<close>

text \<open>
  Concrete environments and states. In \<open>quiet\<close> every collaborator succeeds, the sink
  sends nothing and the local file system is empty.
\<close>

definition quiet :: env where
  "quiet = \<lparr>config_Connection = (\<lambda>tr. Inr 7),
            ssh_Client = (\<lambda>tr k. Inr 8),
            client_NewSession = (\<lambda>tr cl. Inr 9),
            session_RequestPty = (\<lambda>tr s. None),
            session_Start = (\<lambda>tr s line. None),
            session_Wait = (\<lambda>tr s. None),
            session_StdinPipe = (\<lambda>tr s. Inr (None, io_EOF)),
            session_StdoutPipe = (\<lambda>tr s. Inr ([], io_EOF)),
            os_Open = (\<lambda>p. Inl (Foreign ''no such file or directory'')),
            filepath_Join = unix_Join,
            filepath_Dir = unix_Dir,
            filepath_Base = unix_Base,
            filepath_ToSlash = unix_ToSlash\<rparr>"

definition fresh :: comm where
  "fresh = \<lparr>client = None, conn = None, effects = []\<rparr>"

definition connected :: comm where
  "connected = \<lparr>client = Some 8, conn = Some 7, effects = []\<rparr>"

definition stale :: comm where
  "stale = \<lparr>client = Some 1, conn = Some 1, effects = []\<rparr>"

definition handshake_fails :: env where
  "handshake_fails = quiet\<lparr>ssh_Client := (\<lambda>tr k. Inl (Foreign ''ssh: handshake failed''))\<rparr>"

definition stale_client :: env where
  "stale_client = quiet\<lparr>client_NewSession :=
     (\<lambda>tr cl. if cl = 1 then Inl (Foreign ''ssh: unexpected packet'') else Inr 9)\<rparr>"

definition exits_3 :: env where
  "exits_3 = quiet\<lparr>session_Wait := (\<lambda>tr s. Some (ssh_ExitError 3 ''Process exited with: 3''))\<rparr>"

definition exit_3 :: RemoteCmd where
  "exit_3 = \<lparr>Command = ''exit 3'', Stdin = 0, Stdout = 1, Stderr = 2,
             Exited = False, ExitStatus = 0\<rparr>"

text \<open>The remote side has no scp: the shell exits with status 127 and sends nothing.\<close>

definition scp_absent :: env where
  "scp_absent = quiet\<lparr>session_Wait :=
     (\<lambda>tr s. Some (ssh_ExitError 127 ''Process exited with: 127''))\<rparr>"

text \<open>Channels: the sink's answers are \<open>pending\<close>.\<close>

definition closed_stream :: chan where
  "closed_stream = \<lparr>pending = [], rerr = io_EOF, bufsize = 4096,
             wroom = None, werr = io_EOF, wire = []\<rparr>"

definition acking :: chan where
  "acking = \<lparr>pending = [CHR 0x00, CHR 0x00], rerr = io_EOF, bufsize = 4096,
             wroom = None, werr = io_EOF, wire = []\<rparr>"

definition disk_full :: chan where
  "disk_full = \<lparr>pending = CHR 0x01 # ''disk full'' @ [CHR 0x0A], rerr = io_EOF, bufsize = 4096,
             wroom = None, werr = io_EOF, wire = []\<rparr>"

definition disk_full_crlf :: chan where
  "disk_full_crlf = \<lparr>pending = CHR 0x01 # (''disk full'' @ [CHR 0x0D]) @ [CHR 0x0A],
             rerr = io_EOF, bufsize = 4096, wroom = None, werr = io_EOF, wire = []\<rparr>"

definition long_reject :: chan where
  "long_reject = \<lparr>pending = CHR 0x01 # replicate 5000 (CHR ''x'') @ [CHR 0x0A],
             rerr = io_EOF, bufsize = 4096, wroom = None, werr = io_EOF, wire = []\<rparr>"

definition cut_short :: chan where
  "cut_short = \<lparr>pending = [CHR 0x01], rerr = io_EOF, bufsize = 4096,
             wroom = None, werr = io_EOF, wire = []\<rparr>"

definition forged :: chan where
  "forged = \<lparr>pending = CHR 0x01 # ''Error reading error message: EOF'' @ [CHR 0x0A],
             rerr = io_EOF, bufsize = 4096, wroom = None, werr = io_EOF, wire = []\<rparr>"

text \<open>A source directory \<^verbatim>\<open>src\<close> with the file \<^verbatim>\<open>a.txt\<close> and the directory \<^verbatim>\<open>sub\<close>, which holds \<^verbatim>\<open>inner.txt\<close>.\<close>

definition a_txt :: FileInfo where
  "a_txt = \<lparr>Name = ''a.txt'', Mode = ModeRegular\<rparr>"

definition sub_dir :: FileInfo where
  "sub_dir = \<lparr>Name = ''sub'', Mode = ModeDir\<rparr>"

definition inner_txt :: FileInfo where
  "inner_txt = \<lparr>Name = ''inner.txt'', Mode = ModeRegular\<rparr>"

definition plain_file :: "byte list \<Rightarrow> File" where
  "plain_file bs = \<lparr>content = (bs, None), listing = Inl (Foreign ''readdirent: not a directory'')\<rparr>"

definition directory :: "FileInfo list \<Rightarrow> File" where
  "directory es = \<lparr>content = ([], Some (Foreign ''read: is a directory'')), listing = Inr es\<rparr>"

definition tree :: env where
  "tree = quiet\<lparr>os_Open := (\<lambda>p.
      if p = ''src'' then Inr (directory [a_txt, sub_dir])
      else if p = ''src/a.txt'' then Inr (plain_file ''hi'')
      else if p = ''src/sub'' then Inr (directory [inner_txt])
      else if p = ''src/sub/inner.txt'' then Inr (plain_file ''deep'')
      else Inl (Foreign ''no such file or directory''))\<rparr>"




text \<open>
  Two more answers of a sink: a rejection whose line is cut off by the end of the
  stream, and a rejection of 23 bytes read through a buffer of 16.
\<close>

definition truncated :: chan where
  "truncated = \<lparr>pending = CHR 0x01 # ''disk fu'', rerr = io_EOF, bufsize = 4096,
             wroom = None, werr = io_EOF, wire = []\<rparr>"

definition small_buffer :: chan where
  "small_buffer = \<lparr>pending = CHR 0x01 # ''no space left on device'' @ [CHR 0x0A],
             rerr = io_EOF, bufsize = 16, wroom = None, werr = io_EOF, wire = []\<rparr>"

section \<open>Helper lemmas\<close>

subsection \<open>Decimal numerals\<close>

lemma decimal_digit: "n < 10 \<Longrightarrow> decimal n = [digit n]"
  by (simp add: decimal.simps)

lemma digit_val_digit: "d < 10 \<Longrightarrow> digit_val (digit d) = d"
proof -
  assume "d < 10"
  then have "d \<in> {0, 1, 2, 3, 4, 5, 6, 7, 8, 9}"
    by auto
  then show ?thesis
    by (auto simp: digit_val_def digit_def)
qed

lemma undecimal_snoc: "undecimal (s @ [c]) = 10 * undecimal s + digit_val c"
  by (simp add: undecimal_def)

lemma undecimal_decimal: "undecimal (decimal n) = n"
proof (induction n rule: decimal.induct)
  case (1 n)
  show ?case
  proof (cases "n < 10")
    case True
    then show ?thesis
      by (simp add: decimal.simps [of n] undecimal_def digit_val_digit)
  next
    case False
    with 1 show ?thesis
      by (simp add: decimal.simps [of n] undecimal_snoc digit_val_digit)
  qed
qed

subsection \<open>Paths\<close>

lemma unix_paths:
  "unix_Join ''src'' ''a.txt'' = ''src/a.txt''"
  "unix_Join ''src'' ''latest'' = ''src/latest''"
  "unix_Join ''src'' ''sub'' = ''src/sub''"
  "unix_Dir ''/tmp/motd'' = ''/tmp''"
  "unix_Base ''/tmp/motd'' = ''motd''"
  "unix_ToSlash ''/tmp'' = ''/tmp''"
  by (simp_all add: unix_Join_def unix_Dir_def unix_Base_def unix_ToSlash_def unix_Clean_def
      clean_step_def Let_def)

subsection \<open>Reader and writer\<close>

lemma consume_0: "consume 0 ch = ch"
  by (simp add: consume_def)

lemma consume_consume: "consume a (consume b ch) = consume (b + a) ch"
proof -
  have 1: "drop a (drop b (pending ch)) = drop (b + a) (pending ch)"
    by (simp add: add.commute)
  have 2: "take (b + a) (pending ch) = take b (pending ch) @ take a (drop b (pending ch))"
    by (simp add: take_add)
  show ?thesis
    by (simp add: consume_def 1 2 del: drop_drop)
qed

lemma consume_simps:
  "pending (consume n ch) = drop n (pending ch)"
  "wire (consume n ch) = wire ch @ map In (take n (pending ch))"
  "rerr (consume n ch) = rerr ch"
  "bufsize (consume n ch) = bufsize ch"
  "wroom (consume n ch) = wroom ch"
  "werr (consume n ch) = werr ch"
  by (simp_all add: consume_def)

lemma ReadByte_Nil: "pending ch = [] \<Longrightarrow> ReadByte ch = (Inl (rerr ch), ch)"
  by (simp add: ReadByte_def)

lemma ReadByte_Cons:
  "pending ch = b # bs \<Longrightarrow>
   ReadByte ch = (Inr b, ch\<lparr>pending := bs, wire := wire ch @ [In b]\<rparr>)"
  by (simp add: ReadByte_def consume_def)

lemma takeWhile_line:
  "CHR 0x0A \<notin> set m \<Longrightarrow> takeWhile (\<lambda>b. b \<noteq> CHR 0x0A) (m @ CHR 0x0A # rest) = m"
  by (induction m) auto

lemma ReadLine_line:
  assumes "pending ch = m @ CHR 0x0A # rest" and "CHR 0x0A \<notin> set m"
    and "length m < bufsize ch"
  shows "ReadLine ch = ((dropCR m, False, None),
                         ch\<lparr>pending := rest, wire := wire ch @ map In (m @ [CHR 0x0A])\<rparr>)"
proof -
  have "CHR 0x0A \<in> set (take (bufsize ch) (pending ch))"
    using assms by (simp add: take_Cons')
  then show ?thesis
    using assms by (simp add: ReadLine_def Let_def takeWhile_line consume_def)
qed

lemma ReadLine_Nil: "pending ch = [] \<Longrightarrow> ReadLine ch = (([], False, Some (rerr ch)), ch)"
  by (simp add: ReadLine_def)

lemma ReadLine_long:
  assumes "pending ch = m @ CHR 0x0A # rest" and "CHR 0x0A \<notin> set m"
    and "bufsize ch \<le> length m" and "0 < bufsize ch"
  shows "fst (ReadLine ch) = (dropCR (take (bufsize ch) m), True, None)"
  using assms
  by (auto simp: ReadLine_def Let_def dest: in_set_takeD)

lemma ReadLine_newline:
  assumes "CHR 0x0A \<in> set (take (bufsize ch) (pending ch))"
  shows "ReadLine ch =
           ((dropCR (takeWhile (\<lambda>c. c \<noteq> CHR 0x0A) (pending ch)), False, None),
            consume (Suc (length (takeWhile (\<lambda>c. c \<noteq> CHR 0x0A) (pending ch)))) ch)"
  using assms by (simp add: ReadLine_def Let_def)

lemma ReadLine_partial:
  assumes "CHR 0x0A \<notin> set (take (bufsize ch) (pending ch))" and "pending ch \<noteq> []"
    and "length (pending ch) < bufsize ch"
  shows "ReadLine ch = ((pending ch, False, None), consume (length (pending ch)) ch)"
  using assms by (simp add: ReadLine_def Let_def)

lemma ReadLine_full:
  assumes "CHR 0x0A \<notin> set (take (bufsize ch) (pending ch))" and "pending ch \<noteq> []"
    and "bufsize ch \<le> length (pending ch)"
  shows "ReadLine ch =
           ((dropCR (take (bufsize ch) (pending ch)), True, None),
            consume (length (dropCR (take (bufsize ch) (pending ch)))) ch)"
  using assms by (simp add: ReadLine_def Let_def)

lemma ReadLine_consumes: "\<exists>k. snd (ReadLine ch) = consume k ch"
proof (cases "pending ch = []")
  case True
  then have "snd (ReadLine ch) = consume 0 ch"
    by (simp add: ReadLine_Nil consume_0)
  then show ?thesis ..
next
  case False
  then show ?thesis
    by (auto simp: ReadLine_def Let_def)
qed

lemma Write_wire: "wire (snd (Write bs ch)) = wire ch @ map Out (accepted (wroom ch) bs)"
  by (simp add: Write_def accepted_def split: option.splits)

lemma Write_reader:
  "pending (snd (Write bs ch)) = pending ch"
  "rerr (snd (Write bs ch)) = rerr ch"
  "bufsize (snd (Write bs ch)) = bufsize ch"
  by (simp_all add: Write_def split: option.splits)

lemma Write_unlimited:
  "wroom ch = None \<Longrightarrow> Write bs ch = ((length bs, None), ch\<lparr>wire := wire ch @ map Out bs\<rparr>)"
  by (simp add: Write_def)

lemma io_Copy_out_unlimited:
  "wroom ch = None \<Longrightarrow> io_Copy_out buf ch = (None, ch\<lparr>wire := wire ch @ map Out buf\<rparr>)"
  by (simp add: io_Copy_out_def Write_unlimited)

subsection \<open>Status codec\<close>

lemma checkSCPStatus_Nil: "pending ch = [] \<Longrightarrow> checkSCPStatus ch = (Some (rerr ch), ch)"
  by (simp add: checkSCPStatus_def ReadByte_Nil)

lemma checkSCPStatus_zero:
  "pending ch = CHR 0x00 # bs \<Longrightarrow>
   checkSCPStatus ch = (None, ch\<lparr>pending := bs, wire := wire ch @ [In (CHR 0x00)]\<rparr>)"
  by (simp add: checkSCPStatus_def ReadByte_Cons)

lemma checkSCPStatus_reject:
  assumes "pending ch = b # m @ CHR 0x0A # rest" and "b \<noteq> CHR 0x00"
    and "CHR 0x0A \<notin> set m" and "length m < bufsize ch"
  shows "checkSCPStatus ch =
           (Some (errors_New (dropCR m)),
            ch\<lparr>pending := rest, wire := wire ch @ In b # map In (m @ [CHR 0x0A])\<rparr>)"
  using assms
  by (simp add: checkSCPStatus_def ReadByte_Cons ReadLine_line)

lemma checkSCPStatus_cut:
  assumes "pending ch = [b]" and "b \<noteq> CHR 0x00"
  shows "checkSCPStatus ch =
           (Some (errors_New (''Error reading error message: '' @ Error (rerr ch))),
            ch\<lparr>pending := [], wire := wire ch @ [In b]\<rparr>)"
  using assms
  by (simp add: checkSCPStatus_def ReadByte_Cons ReadLine_Nil)

lemma checkSCPStatus_ok_iff:
  "fst (checkSCPStatus ch) = None \<longleftrightarrow> (\<exists>bs. pending ch = CHR 0x00 # bs)"
  by (auto simp: checkSCPStatus_def ReadByte_def split: list.splits prod.splits option.splits)

lemma checkSCPStatus_long:
  assumes "pending ch = b # m @ CHR 0x0A # rest" and "b \<noteq> CHR 0x00"
    and "CHR 0x0A \<notin> set m" and "bufsize ch \<le> length m" and "0 < bufsize ch"
  shows "fst (checkSCPStatus ch) = Some (errors_New (dropCR (take (bufsize ch) m)))"
proof -
  let ?ch1 = "ch\<lparr>pending := m @ CHR 0x0A # rest, wire := wire ch @ [In b]\<rparr>"
  have "fst (ReadLine ?ch1) = (dropCR (take (bufsize ?ch1) m), True, None)"
    using assms by (intro ReadLine_long) simp_all
  then obtain ch2 where "ReadLine ?ch1 = ((dropCR (take (bufsize ch) m), True, None), ch2)"
    by (cases "ReadLine ?ch1") simp
  then show ?thesis
    using assms(1,2) by (simp add: checkSCPStatus_def ReadByte_Cons)
qed

lemma ReadByte_consume: "pending ch = b # p \<Longrightarrow> ReadByte ch = (Inr b, consume 1 ch)"
  by (simp add: ReadByte_def)

lemma checkSCPStatus_nothing_more:
  assumes "pending ch = [b]" and "b \<noteq> CHR 0x00"
  shows "checkSCPStatus ch =
           (Some (errors_New (''Error reading error message: '' @ Error (rerr ch))),
            consume 1 ch)"
  using assms
  by (simp add: checkSCPStatus_def ReadByte_consume ReadLine_Nil consume_simps)

lemma checkSCPStatus_newline:
  assumes "pending ch = b # p" and "b \<noteq> CHR 0x00"
    and "CHR 0x0A \<in> set (take (bufsize ch) p)"
  shows "checkSCPStatus ch =
           (Some (errors_New (dropCR (takeWhile (\<lambda>c. c \<noteq> CHR 0x0A) p))),
            consume (2 + length (takeWhile (\<lambda>c. c \<noteq> CHR 0x0A) p)) ch)"
proof -
  have "CHR 0x0A \<in> set (take (bufsize (consume 1 ch)) (pending (consume 1 ch)))"
    using assms by (simp add: consume_simps)
  from ReadLine_newline [OF this] assms(1,2) show ?thesis
    by (simp add: checkSCPStatus_def ReadByte_consume consume_simps consume_consume)
qed

lemma checkSCPStatus_partial:
  assumes "pending ch = b # p" and "b \<noteq> CHR 0x00" and "p \<noteq> []"
    and "CHR 0x0A \<notin> set (take (bufsize ch) p)" and "length p < bufsize ch"
  shows "checkSCPStatus ch = (Some (errors_New p), consume (1 + length p) ch)"
proof -
  have "CHR 0x0A \<notin> set (take (bufsize (consume 1 ch)) (pending (consume 1 ch)))"
    and "pending (consume 1 ch) \<noteq> []"
    and "length (pending (consume 1 ch)) < bufsize (consume 1 ch)"
    using assms by (simp_all add: consume_simps)
  from ReadLine_partial [OF this] assms(1,2) show ?thesis
    by (simp add: checkSCPStatus_def ReadByte_consume consume_simps consume_consume)
qed

lemma checkSCPStatus_full:
  assumes "pending ch = b # p" and "b \<noteq> CHR 0x00" and "p \<noteq> []"
    and "CHR 0x0A \<notin> set (take (bufsize ch) p)" and "bufsize ch \<le> length p"
  shows "checkSCPStatus ch =
           (Some (errors_New (dropCR (take (bufsize ch) p))),
            consume (1 + length (dropCR (take (bufsize ch) p))) ch)"
proof -
  have "CHR 0x0A \<notin> set (take (bufsize (consume 1 ch)) (pending (consume 1 ch)))"
    and "pending (consume 1 ch) \<noteq> []"
    and "bufsize (consume 1 ch) \<le> length (pending (consume 1 ch))"
    using assms by (simp_all add: consume_simps)
  from ReadLine_full [OF this] assms(1,2) show ?thesis
    by (simp add: checkSCPStatus_def ReadByte_consume consume_simps consume_consume)
qed

lemma checkSCPStatus_nonzero:
  assumes "pending ch = b # p" and "b \<noteq> CHR 0x00"
  shows "\<exists>e k. checkSCPStatus ch = (Some e, consume (Suc k) ch)"
proof -
  obtain res ch2 where "ReadLine (consume 1 ch) = (res, ch2)"
    by (cases "ReadLine (consume 1 ch)")
  moreover obtain line isPrefix err where "res = (line, isPrefix, err)"
    by (cases res)
  ultimately have rl: "ReadLine (consume 1 ch) = ((line, isPrefix, err), ch2)"
    by simp
  obtain k where "snd (ReadLine (consume 1 ch)) = consume k (consume 1 ch)"
    using ReadLine_consumes by blast
  with rl have ch2: "ch2 = consume (Suc k) ch"
    by (simp add: consume_consume)
  show ?thesis
    using assms rl ch2
    by (cases err) (auto simp: checkSCPStatus_def ReadByte_consume)
qed

subsection \<open>One file\<close>

lemma scpUploadFile_acked:
  assumes "pending ch = CHR 0x00 # CHR 0x00 # rest" and "wroom ch = None"
  shows "scpUploadFile dst (buf, None) ch =
           (None, ch\<lparr>pending := rest,
                     wire := wire ch @ map Out (file_header (length buf) dst) @ [In (CHR 0x00)]
                             @ map Out buf @ [Out (CHR 0x00), In (CHR 0x00)]\<rparr>)"
  using assms
  by (simp add: scpUploadFile_def Let_def Write_unlimited checkSCPStatus_zero
      io_Copy_out_unlimited)


lemma scpUploadFile_refused:
  assumes "pending ch = b # m @ CHR 0x0A # rest" and "b \<noteq> CHR 0x00"
    and "CHR 0x0A \<notin> set m" and "length m < bufsize ch"
  shows "fst (scpUploadFile dst (buf, None) ch) = Some (errors_New (dropCR m)) \<and>
         wire (snd (scpUploadFile dst (buf, None) ch)) =
           wire ch @ map Out (accepted (wroom ch) (file_header (length buf) dst))
           @ In b # map In (m @ [CHR 0x0A]) \<and>
         pending (snd (scpUploadFile dst (buf, None) ch)) = rest"
proof -
  let ?ch1 = "snd (Write (file_header (length buf) dst) ch)"
  have st: "checkSCPStatus ?ch1 =
           (Some (errors_New (dropCR m)),
            ?ch1\<lparr>pending := rest, wire := wire ?ch1 @ In b # map In (m @ [CHR 0x0A])\<rparr>)"
    using assms by (intro checkSCPStatus_reject) (simp_all add: Write_reader)
  show ?thesis
    by (simp add: scpUploadFile_def Let_def st Write_wire)
qed

lemma scpUploadFile_first_status:
  assumes "fst (checkSCPStatus (snd (Write (file_header (length buf) dst) ch))) = Some e"
  shows "fst (scpUploadFile dst (buf, None) ch) = Some e"
proof -
  obtain r ch2 where "checkSCPStatus (snd (Write (file_header (length buf) dst) ch)) = (r, ch2)"
    by (cases "checkSCPStatus (snd (Write (file_header (length buf) dst) ch))")
  with assms show ?thesis
    by (simp add: scpUploadFile_def Let_def)
qed

lemma scpUploadFile_nonzero:
  assumes "pending ch = b # p" and "b \<noteq> CHR 0x00"
  shows "\<exists>e k. scpUploadFile dst (buf, None) ch =
                 (Some e, consume (Suc k) (snd (Write (file_header (length buf) dst) ch)))"
proof -
  let ?ch1 = "snd (Write (file_header (length buf) dst) ch)"
  have "pending ?ch1 = b # p"
    using assms(1) by (simp add: Write_reader)
  from checkSCPStatus_nonzero [OF this assms(2)] obtain e k
    where "checkSCPStatus ?ch1 = (Some e, consume (Suc k) ?ch1)"
    by blast
  then have "scpUploadFile dst (buf, None) ch = (Some e, consume (Suc k) ?ch1)"
    by (simp add: scpUploadFile_def Let_def)
  then show ?thesis
    by blast
qed

section \<open>The status codec and the upload of one file\<close>

text \<open>
  Claim C2. For every byte sequence \<open>buf\<close> and every name \<open>dst\<close>, the upload of \<open>buf\<close>
  to \<open>dst\<close> on a channel whose sink answers with two zero bytes and whose writer takes
  what it is given succeeds, and adds to the transcript exactly the header line
  \<^verbatim>\<open>C0644 <length> <name>\n\<close>, the first acknowledgement, the content as it is, one
  NUL byte and the second acknowledgement. The decimal numeral of the header reads back
  as the number of content bytes.
\<close>

theorem scpUploadFile_transcript:
  assumes "pending ch = CHR 0x00 # CHR 0x00 # rest" and "wroom ch = None"
  shows "scpUploadFile dst (buf, None) ch =
           (None,
            ch\<lparr>pending := rest,
               wire := wire ch @
                 map Out (''C0644 '' @ decimal (length buf) @ '' '' @ dst @ [CHR 0x0A]) @
                 [In (CHR 0x00)] @ map Out buf @ [Out (CHR 0x00)] @ [In (CHR 0x00)]\<rparr>) \<and>
         undecimal (decimal (length buf)) = length buf"
  using scpUploadFile_acked [OF assms, of dst buf]
  by (simp add: file_header_def undecimal_decimal)

theorem scpUploadFile_transcript_witness:
  "pending acking = CHR 0x00 # CHR 0x00 # [] \<and> wroom acking = None \<and>
   scpUploadFile ''a.txt'' (''hello'', None) acking =
     (None,
      acking\<lparr>pending := [],
         wire := map Out (''C0644 5 a.txt'' @ [CHR 0x0A]) @ [In (CHR 0x00)] @ map Out ''hello'' @
                 [Out (CHR 0x00)] @ [In (CHR 0x00)]\<rparr>)"
proof -
  have h1: "pending acking = CHR 0x00 # CHR 0x00 # []" and h2: "wroom acking = None"
    by (simp_all add: acking_def)
  from scpUploadFile_transcript [OF h1 h2, of "''a.txt''" "''hello''"] h1 h2 show ?thesis
    by (simp add: acking_def decimal_digit digit_def)
qed

text \<open>
  Claim C5, as stated, fails: the message is read with \<^verbatim>\<open>ReadLine\<close>, which takes a
  carriage return before the newline as part of the line end and cuts a line at the
  size of the reader's buffer. A sink that answers the header with the byte 1 and the
  message \<^verbatim>\<open>disk full\r\<close> gets the error text \<^verbatim>\<open>disk full\<close>, and of a message of
  5000 bytes the error keeps the first 4096.
\<close>

theorem scpUploadFile_message_not_verbatim:
  "pending disk_full_crlf = CHR 0x01 # (''disk full'' @ [CHR 0x0D]) @ [CHR 0x0A] \<and>
   fst (scpUploadFile ''f'' (''hello'', None) disk_full_crlf) \<noteq>
     Some (errors_New (''disk full'' @ [CHR 0x0D])) \<and>
   pending long_reject = CHR 0x01 # replicate 5000 (CHR ''x'') @ [CHR 0x0A] \<and>
   fst (scpUploadFile ''f'' (''hello'', None) long_reject) \<noteq>
     Some (errors_New (replicate 5000 (CHR ''x'')))"
proof -
  have crlf: "fst (scpUploadFile ''f'' (''hello'', None) disk_full_crlf) =
                Some (errors_New ''disk full'')"
    by (simp add: scpUploadFile_def checkSCPStatus_def ReadByte_def ReadLine_def Write_def
        consume_def dropCR_def disk_full_crlf_def Let_def)
  let ?ch1 = "snd (Write (file_header (length ''hello'') ''f'') long_reject)"
  have p1: "pending ?ch1 = CHR 0x01 # replicate 5000 (CHR ''x'') @ CHR 0x0A # []"
    and b1: "bufsize ?ch1 = 4096"
    by (simp_all add: Write_reader long_reject_def)
  have "fst (checkSCPStatus ?ch1) =
          Some (errors_New (dropCR (take (bufsize ?ch1) (replicate 5000 (CHR ''x'')))))"
    using b1 by (intro checkSCPStatus_long [OF p1]) simp_all
  then have "fst (checkSCPStatus ?ch1) = Some (errors_New (replicate 4096 (CHR ''x'')))"
    unfolding b1 by (simp add: dropCR_def)
  then have long: "fst (scpUploadFile ''f'' (''hello'', None) long_reject) =
                     Some (errors_New (replicate 4096 (CHR ''x'')))"
    by (rule scpUploadFile_first_status)
  show ?thesis
    unfolding crlf long by (simp add: disk_full_crlf_def long_reject_def)
qed

text \<open>
  Claim C5, amended. If the sink answers the header with a non-zero byte \<open>b\<close>,
  whatever follows it, the upload fails with an error, and after the header (as far as
  the writer took it) the transcript holds only bytes read from the sink, the status
  byte first: no content byte and no terminator is written. If the byte is followed by
  a message \<open>m\<close> and a newline, where \<open>m\<close> holds no newline, is shorter than the
  reader's buffer and does not end in a carriage return, then the text of the error is
  \<open>m\<close>, and the bytes read are the status byte and that line.
\<close>

theorem scpUploadFile_rejected_header:
  assumes "pending ch = b # p" and "b \<noteq> CHR 0x00"
  shows "(\<exists>e k. fst (scpUploadFile dst (buf, None) ch) = Some e \<and>
                wire (snd (scpUploadFile dst (buf, None) ch)) =
                  wire ch @ map Out (accepted (wroom ch) (file_header (length buf) dst))
                  @ map In (take (Suc k) (b # p))) \<and>
         (\<forall>m rest.
            p = m @ CHR 0x0A # rest \<and> CHR 0x0A \<notin> set m \<and> length m < bufsize ch \<and>
            (m = [] \<or> last m \<noteq> CHR 0x0D) \<longrightarrow>
            fst (scpUploadFile dst (buf, None) ch) = Some (errors_New m) \<and>
            wire (snd (scpUploadFile dst (buf, None) ch)) =
              wire ch @ map Out (accepted (wroom ch) (file_header (length buf) dst))
              @ In b # map In (m @ [CHR 0x0A]) \<and>
            pending (snd (scpUploadFile dst (buf, None) ch)) = rest)"
proof -
  let ?ch1 = "snd (Write (file_header (length buf) dst) ch)"
  from scpUploadFile_nonzero [OF assms, of dst buf] obtain e k
    where up: "scpUploadFile dst (buf, None) ch = (Some e, consume (Suc k) ?ch1)"
    by blast
  have "wire (consume (Suc k) ?ch1) =
          wire ch @ map Out (accepted (wroom ch) (file_header (length buf) dst))
          @ map In (take (Suc k) (b # p))"
    using assms(1) by (simp only: consume_simps Write_wire Write_reader append_assoc)
  with up have 1: "\<exists>e k. fst (scpUploadFile dst (buf, None) ch) = Some e \<and>
                wire (snd (scpUploadFile dst (buf, None) ch)) =
                  wire ch @ map Out (accepted (wroom ch) (file_header (length buf) dst))
                  @ map In (take (Suc k) (b # p))"
    by (metis fst_conv snd_conv)
  have 2: "fst (scpUploadFile dst (buf, None) ch) = Some (errors_New m) \<and>
            wire (snd (scpUploadFile dst (buf, None) ch)) =
              wire ch @ map Out (accepted (wroom ch) (file_header (length buf) dst))
              @ In b # map In (m @ [CHR 0x0A]) \<and>
            pending (snd (scpUploadFile dst (buf, None) ch)) = rest"
    if "p = m @ CHR 0x0A # rest" and "CHR 0x0A \<notin> set m" and "length m < bufsize ch"
      and "m = [] \<or> last m \<noteq> CHR 0x0D" for m rest
  proof -
    have "dropCR m = m"
      using that(4) by (auto simp: dropCR_def)
    moreover have "pending ch = b # m @ CHR 0x0A # rest"
      using assms(1) that(1) by simp
    ultimately show ?thesis
      using scpUploadFile_refused [OF _ assms(2) that(2,3), of rest dst buf] by simp
  qed
  from 1 2 show ?thesis
    by blast
qed

theorem scpUploadFile_rejected_header_witness:
  "pending disk_full = CHR 0x01 # (''disk full'' @ CHR 0x0A # []) \<and> CHR 0x01 \<noteq> CHR 0x00 \<and>
   CHR 0x0A \<notin> set ''disk full'' \<and> length ''disk full'' < bufsize disk_full \<and>
   (''disk full'' = [] \<or> last ''disk full'' \<noteq> CHR 0x0D) \<and>
   fst (scpUploadFile ''motd'' (''hello'', None) disk_full) = Some (errors_New ''disk full'') \<and>
   wire (snd (scpUploadFile ''motd'' (''hello'', None) disk_full)) =
     map Out (''C0644 5 motd'' @ [CHR 0x0A]) @ In (CHR 0x01) # map In (''disk full'' @ [CHR 0x0A])"
proof -
  have h1: "pending disk_full = CHR 0x01 # (''disk full'' @ CHR 0x0A # [])"
    and h2: "CHR 0x01 \<noteq> CHR 0x00"
    and h3: "''disk full'' @ CHR 0x0A # [] = ''disk full'' @ CHR 0x0A # [] \<and>
             CHR 0x0A \<notin> set ''disk full'' \<and> length ''disk full'' < bufsize disk_full \<and>
             (''disk full'' = [] \<or> last ''disk full'' \<noteq> CHR 0x0D)"
    by (simp_all add: disk_full_def)
  from scpUploadFile_rejected_header [OF h1 h2, of "''motd''" "''hello''"]
  have "\<forall>m rest.
            ''disk full'' @ CHR 0x0A # [] = m @ CHR 0x0A # rest \<and> CHR 0x0A \<notin> set m \<and>
            length m < bufsize disk_full \<and> (m = [] \<or> last m \<noteq> CHR 0x0D) \<longrightarrow>
            fst (scpUploadFile ''motd'' (''hello'', None) disk_full) = Some (errors_New m) \<and>
            wire (snd (scpUploadFile ''motd'' (''hello'', None) disk_full)) =
              wire disk_full @
              map Out (accepted (wroom disk_full) (file_header (length ''hello'') ''motd''))
              @ In (CHR 0x01) # map In (m @ [CHR 0x0A]) \<and>
            pending (snd (scpUploadFile ''motd'' (''hello'', None) disk_full)) = rest"
    by (rule conjunct2)
  from this [rule_format, of "''disk full''" "[]", OF h3] h1 h2 h3
  show ?thesis
    by (simp add: disk_full_def accepted_def file_header_def decimal_digit digit_def)
qed

text \<open>
  Claim C6, as stated, fails where the message line cannot be read to its end. The
  errors are plain \<^verbatim>\<open>errors.New\<close> values, and the one for a failure to read the
  line is one a sink can have sent as a rejection: a stream that ends after the status
  byte 1 and a stream with the byte 1 and the line
  \<^verbatim>\<open>Error reading error message: EOF\<close> give the same error. And when the stream
  ends in the middle of the line, no read failure is reported at all: the part of the
  line that came is returned as the rejection.
\<close>

theorem checkSCPStatus_read_failure_indistinct:
  "pending cut_short = [CHR 0x01] \<and>
   fst (checkSCPStatus cut_short) = Some (errors_New ''Error reading error message: EOF'') \<and>
   pending forged = CHR 0x01 # ''Error reading error message: EOF'' @ [CHR 0x0A] \<and>
   fst (checkSCPStatus forged) = Some (errors_New ''Error reading error message: EOF'') \<and>
   pending truncated = CHR 0x01 # ''disk fu'' \<and>
   fst (checkSCPStatus truncated) = Some (errors_New ''disk fu'')"
  by (simp add: checkSCPStatus_def ReadByte_def ReadLine_def consume_def dropCR_def
      cut_short_def forged_def truncated_def Let_def)

text \<open>
  Claim C6, amended. For every input stream: on a stream with nothing left
  \<^verbatim>\<open>checkSCPStatus\<close> returns the reader's own error and never success; on a zero
  byte it returns no error and consumes that byte only; on a non-zero byte \<open>b\<close> it
  consumes \<open>b\<close> and calls \<^verbatim>\<open>ReadLine\<close> once. When nothing follows \<open>b\<close>, it returns
  the \<^verbatim>\<open>errors.New\<close> error whose text is \<^verbatim>\<open>Error reading error message: \<close> and the
  text of the reader's error. When a newline comes within the reader's buffer, it
  consumes the line and returns it, without its line end (a newline, or a carriage
  return and a newline), as the text of an \<^verbatim>\<open>errors.New\<close> error. When the stream
  ends before a newline and before the buffer is full, it returns what is left of the
  stream as the text of such an error, and the reader's error is lost. When the buffer
  fills before a newline, it returns the first buffer of the line (less a carriage
  return at its end) as the text of such an error. It succeeds only on a zero byte.
\<close>

theorem checkSCPStatus_outcomes:
  "(pending ch = [] \<longrightarrow> checkSCPStatus ch = (Some (rerr ch), ch)) \<and>
   (pending ch = CHR 0x00 # bs \<longrightarrow>
      checkSCPStatus ch = (None, ch\<lparr>pending := bs, wire := wire ch @ [In (CHR 0x00)]\<rparr>)) \<and>
   (pending ch = b # p \<and> b \<noteq> CHR 0x00 \<longrightarrow>
      (p = [] \<longrightarrow>
         checkSCPStatus ch =
           (Some (errors_New (''Error reading error message: '' @ Error (rerr ch))),
            consume 1 ch)) \<and>
      (CHR 0x0A \<in> set (take (bufsize ch) p) \<longrightarrow>
         checkSCPStatus ch =
           (Some (errors_New (dropCR (takeWhile (\<lambda>c. c \<noteq> CHR 0x0A) p))),
            consume (2 + length (takeWhile (\<lambda>c. c \<noteq> CHR 0x0A) p)) ch)) \<and>
      (p \<noteq> [] \<and> CHR 0x0A \<notin> set (take (bufsize ch) p) \<and> length p < bufsize ch \<longrightarrow>
         checkSCPStatus ch = (Some (errors_New p), consume (1 + length p) ch)) \<and>
      (p \<noteq> [] \<and> CHR 0x0A \<notin> set (take (bufsize ch) p) \<and> bufsize ch \<le> length p \<longrightarrow>
         checkSCPStatus ch =
           (Some (errors_New (dropCR (take (bufsize ch) p))),
            consume (1 + length (dropCR (take (bufsize ch) p))) ch))) \<and>
   (\<forall>m rest.
      pending ch = b # m @ CHR 0x0A # rest \<and> b \<noteq> CHR 0x00 \<and> CHR 0x0A \<notin> set m \<and>
      length m < bufsize ch \<longrightarrow>
      checkSCPStatus ch =
        (Some (errors_New (dropCR m)),
         ch\<lparr>pending := rest, wire := wire ch @ In b # map In (m @ [CHR 0x0A])\<rparr>)) \<and>
   (fst (checkSCPStatus ch) = None \<longleftrightarrow> (\<exists>bs'. pending ch = CHR 0x00 # bs'))"
  using checkSCPStatus_Nil [of ch] checkSCPStatus_zero [of ch bs]
    checkSCPStatus_nothing_more [of ch b] checkSCPStatus_newline [of ch b p]
    checkSCPStatus_partial [of ch b p] checkSCPStatus_full [of ch b p]
    checkSCPStatus_reject [of ch b] checkSCPStatus_ok_iff [of ch]
  by blast

theorem checkSCPStatus_outcomes_witness:
  "pending closed_stream = [] \<and>
   checkSCPStatus closed_stream = (Some io_EOF, closed_stream) \<and>
   pending acking = CHR 0x00 # [CHR 0x00] \<and>
   checkSCPStatus acking = (None, acking\<lparr>pending := [CHR 0x00], wire := [In (CHR 0x00)]\<rparr>) \<and>
   pending disk_full = CHR 0x01 # ''disk full'' @ CHR 0x0A # [] \<and>
   checkSCPStatus disk_full =
     (Some (errors_New ''disk full''),
      disk_full\<lparr>pending := [], wire := In (CHR 0x01) # map In (''disk full'' @ [CHR 0x0A])\<rparr>) \<and>
   pending cut_short = CHR 0x01 # [] \<and>
   checkSCPStatus cut_short =
     (Some (errors_New ''Error reading error message: EOF''), consume 1 cut_short) \<and>
   pending truncated = CHR 0x01 # ''disk fu'' \<and>
   checkSCPStatus truncated = (Some (errors_New ''disk fu''), consume 8 truncated) \<and>
   pending small_buffer = CHR 0x01 # (''no space left on device'' @ [CHR 0x0A]) \<and>
   checkSCPStatus small_buffer = (Some (errors_New ''no space left on''), consume 17 small_buffer)"
proof -
  have 1: "pending closed_stream = []"
    and 2: "pending acking = CHR 0x00 # [CHR 0x00]"
    and 3: "pending disk_full = CHR 0x01 # ''disk full'' @ CHR 0x0A # [] \<and> CHR 0x01 \<noteq> CHR 0x00 \<and>
            CHR 0x0A \<notin> set ''disk full'' \<and> length ''disk full'' < bufsize disk_full"
    and 4: "pending cut_short = CHR 0x01 # [] \<and> CHR 0x01 \<noteq> CHR 0x00"
    and 5: "pending truncated = CHR 0x01 # ''disk fu'' \<and> CHR 0x01 \<noteq> CHR 0x00"
    and 7: "''disk fu'' \<noteq> [] \<and> CHR 0x0A \<notin> set (take (bufsize truncated) ''disk fu'') \<and>
             length ''disk fu'' < bufsize truncated"
    and 6: "pending small_buffer = CHR 0x01 # (''no space left on device'' @ [CHR 0x0A]) \<and>
            CHR 0x01 \<noteq> CHR 0x00"
    and 8: "''no space left on device'' @ [CHR 0x0A] \<noteq> [] \<and>
             CHR 0x0A \<notin> set (take (bufsize small_buffer) (''no space left on device'' @ [CHR 0x0A])) \<and>
             bufsize small_buffer \<le> length (''no space left on device'' @ [CHR 0x0A])"
    by (simp_all add: closed_stream_def acking_def disk_full_def cut_short_def truncated_def
        small_buffer_def)
  have a: "checkSCPStatus closed_stream = (Some (rerr closed_stream), closed_stream)"
    using checkSCPStatus_outcomes [where ch = closed_stream] 1 by blast
  have b: "checkSCPStatus acking =
             (None, acking\<lparr>pending := [CHR 0x00], wire := wire acking @ [In (CHR 0x00)]\<rparr>)"
    using checkSCPStatus_outcomes [where ch = acking and bs = "[CHR 0x00]"] 2 by blast
  have c: "checkSCPStatus disk_full =
             (Some (errors_New (dropCR ''disk full'')),
              disk_full\<lparr>pending := [],
                wire := wire disk_full @ In (CHR 0x01) # map In (''disk full'' @ [CHR 0x0A])\<rparr>)"
    using checkSCPStatus_outcomes [where ch = disk_full and b = "CHR 0x01"] 3 by blast
  have d: "checkSCPStatus cut_short =
             (Some (errors_New (''Error reading error message: '' @ Error (rerr cut_short))),
              consume 1 cut_short)"
    using checkSCPStatus_outcomes [where ch = cut_short and b = "CHR 0x01" and p = "[]"] 4
    by blast
  have e: "checkSCPStatus truncated =
             (Some (errors_New ''disk fu''), consume (1 + length ''disk fu'') truncated)"
    using checkSCPStatus_outcomes [where ch = truncated and b = "CHR 0x01"
        and p = "''disk fu''"] 5 7
    by blast
  have f: "checkSCPStatus small_buffer =
             (Some (errors_New (dropCR (take (bufsize small_buffer)
                                          (''no space left on device'' @ [CHR 0x0A])))),
              consume (1 + length (dropCR (take (bufsize small_buffer)
                                             (''no space left on device'' @ [CHR 0x0A]))))
                small_buffer)"
    using checkSCPStatus_outcomes [where ch = small_buffer and b = "CHR 0x01"
        and p = "''no space left on device'' @ [CHR 0x0A]"] 6 8
    by blast
  have g: "dropCR (take (bufsize small_buffer) (''no space left on device'' @ [CHR 0x0A])) =
             ''no space left on''"
    by (simp add: small_buffer_def dropCR_def)
  show ?thesis
    unfolding a b c d e f g
    by (simp add: closed_stream_def acking_def disk_full_def cut_short_def truncated_def
        small_buffer_def dropCR_def consume_def)
qed

section \<open>Reconnecting and opening sessions\<close>

lemma reconnect_dials: "dials (snd (reconnect E c)) = Suc (dials c)"
  by (simp add: reconnect_def dials_def emit_def Let_def split: option.splits sum.splits)

lemma reconnect_opens: "opens (snd (reconnect E c)) = opens c"
  by (simp add: reconnect_def opens_def emit_def Let_def split: option.splits sum.splits)

lemma reconnect_ok_client:
  "reconnect E c = (None, c') \<Longrightarrow> client c' \<noteq> None \<and> conn c' \<noteq> None"
  by (auto simp: reconnect_def emit_def Let_def split: option.splits sum.splits)

lemma client_open_counts:
  "client c \<noteq> None \<Longrightarrow> opens (snd (client_open E c)) = Suc (opens c)"
  "dials (snd (client_open E c)) = dials c"
  by (auto simp: client_open_def opens_def dials_def emit_def Let_def split: option.splits)

lemma first_open_counts:
  "dials (snd (first_open E c)) = dials c"
  "opens (snd (first_open E c)) \<le> Suc (opens c)"
  "isl (fst (first_open E c)) \<or> opens (snd (first_open E c)) = Suc (opens c)"
  by (auto simp: first_open_def client_open_def emit_def opens_def dials_def Let_def)

text \<open>
  Claim C1, as stated, fails for a failed handshake: \<^verbatim>\<open>reconnect\<close> has stored the
  new connection before it calls \<^verbatim>\<open>ssh.Client\<close>, and keeps it when the handshake
  fails, so the communicator holds a connection and no client.
\<close>

theorem reconnect_handshake_failure_keeps_conn:
  "\<not> (fst (reconnect handshake_fails fresh) \<noteq> None \<longrightarrow>
        conn (snd (reconnect handshake_fails fresh)) = None \<and>
        client (snd (reconnect handshake_fails fresh)) = None)"
  by (simp add: reconnect_def handshake_fails_def quiet_def fresh_def emit_def Let_def)

text \<open>
  Claim C1, amended. After every failed \<^verbatim>\<open>reconnect\<close> the communicator holds no
  client. When the connection factory failed, the error is the factory's and the
  communicator holds no connection either; when the handshake failed, the error is the
  handshake's and the communicator holds the connection the factory has just returned.
\<close>

theorem reconnect_failure_state:
  assumes "reconnect E c = (Some err, c')"
  shows "client c' = None \<and>
         (case config_Connection E (closing c) of
            Inl e \<Rightarrow> err = e \<and> conn c' = None
          | Inr k \<Rightarrow> ssh_Client E (closing c @ [Dial (Inr k)]) k = Inl err \<and> conn c' = Some k)"
  using assms
  by (auto simp: reconnect_def closing_def emit_def Let_def split: option.splits sum.splits)

theorem reconnect_failure_state_witness:
  "reconnect handshake_fails fresh =
     (Some (Foreign ''ssh: handshake failed''),
      \<lparr>client = None, conn = Some 7,
       effects = [Dial (Inr 7), Handshake 7 (Inl (Foreign ''ssh: handshake failed''))]\<rparr>) \<and>
   config_Connection handshake_fails (closing fresh) = Inr 7 \<and>
   ssh_Client handshake_fails (closing fresh @ [Dial (Inr 7)]) 7 =
     Inl (Foreign ''ssh: handshake failed'')"
proof -
  have h: "reconnect handshake_fails fresh =
     (Some (Foreign ''ssh: handshake failed''),
      \<lparr>client = None, conn = Some 7,
       effects = [Dial (Inr 7), Handshake 7 (Inl (Foreign ''ssh: handshake failed''))]\<rparr>)"
    by (simp add: reconnect_def handshake_fails_def quiet_def fresh_def emit_def Let_def)
  have d: "config_Connection handshake_fails (closing fresh) = Inr 7"
    by (simp add: handshake_fails_def quiet_def)
  from reconnect_failure_state [OF h] h d show ?thesis
    by simp
qed

text \<open>
  Claim C3. In every call of \<^verbatim>\<open>newSession\<close>: when the first attempt gives a session,
  that is the result, after one channel open and no call of the connection factory.
  When it fails (the client is missing, or the open fails), \<^verbatim>\<open>reconnect\<close> runs once,
  which shows as one call of the factory; if it fails, its error is the result and no
  channel is opened after it; if it succeeds, the result is that of one more channel open
  on the new client. No call makes more than one reconnect or more than two opens.
\<close>

theorem newSession_single_retry:
  assumes "newSession E c = (r, c')"
  shows "(case first_open E c of
            (Inr s, c1) \<Rightarrow> r = Inr s \<and> c' = c1 \<and> dials c' = dials c \<and> opens c' = opens c + 1
          | (Inl e1, c1) \<Rightarrow>
              dials c' = dials c + 1 \<and>
              (case reconnect E c1 of
                 (Some e2, c2) \<Rightarrow> r = Inl e2 \<and> c' = c2 \<and> opens c' = opens c1
               | (None, c2) \<Rightarrow>
                   (r, c') = client_open E c2 \<and> client c2 \<noteq> None \<and> opens c' = opens c1 + 1))
         \<and> dials c' \<le> dials c + 1 \<and> opens c' \<le> opens c + 2"
proof (cases "first_open E c")
  case (Pair r1 c1)
  note fo = this
  have d1: "dials c1 = dials c" and o1: "opens c1 \<le> Suc (opens c)"
    using first_open_counts(1,2) [of E c] fo by simp_all
  show ?thesis
  proof (cases r1)
    case (Inr s)
    have "opens c1 = Suc (opens c)"
      using first_open_counts(3) [of E c] fo Inr by simp
    with assms fo Inr d1 show ?thesis
      by (auto simp: newSession_def)
  next
    case (Inl e1)
    show ?thesis
    proof (cases "reconnect E c1")
      case (Pair ro c2)
      note rc = this
      have d2: "dials c2 = Suc (dials c1)" and o2: "opens c2 = opens c1"
        using reconnect_dials [of E c1] reconnect_opens [of E c1] rc by simp_all
      show ?thesis
      proof (cases ro)
        case (Some e2)
        with assms fo Inl rc d1 d2 o1 o2 show ?thesis
          by (auto simp: newSession_def)
      next
        case None
        have cl: "client c2 \<noteq> None"
          using reconnect_ok_client rc None by blast
        have eq: "(r, c') = client_open E c2"
          using assms fo Inl rc None by (simp add: newSession_def)
        have "opens c' = Suc (opens c2)" "dials c' = dials c2"
          using client_open_counts(1) [of c2 E] client_open_counts(2) [of E c2] cl eq [symmetric]
          by simp_all
        with fo Inl rc None cl eq d1 d2 o1 o2 show ?thesis
          by simp
      qed
    qed
  qed
qed

theorem newSession_single_retry_witness:
  "newSession stale_client stale =
     (Inr 9, \<lparr>client = Some 8, conn = Some 7,
              effects = [OpenSession 1 (Inl (Foreign ''ssh: unexpected packet'')), ConnClose 1,
                         Dial (Inr 7), Handshake 7 (Inr 8), OpenSession 8 (Inr 9)]\<rparr>) \<and>
   dials (snd (newSession stale_client stale)) \<le> dials stale + 1 \<and>
   opens (snd (newSession stale_client stale)) \<le> opens stale + 2 \<and>
   dials (snd (newSession stale_client stale)) = 1 \<and>
   opens (snd (newSession stale_client stale)) = 2"
proof -
  have h: "newSession stale_client stale =
     (Inr 9, \<lparr>client = Some 8, conn = Some 7,
              effects = [OpenSession 1 (Inl (Foreign ''ssh: unexpected packet'')), ConnClose 1,
                         Dial (Inr 7), Handshake 7 (Inr 8), OpenSession 8 (Inr 9)]\<rparr>)"
    by (simp add: newSession_def first_open_def client_open_def reconnect_def stale_client_def
        stale_def quiet_def emit_def Let_def)
  from newSession_single_retry [OF h] h show ?thesis
    by (simp add: dials_def opens_def)
qed

section \<open>Command execution\<close>

lemma exits_append: "exits (xs @ ys) = exits xs @ exits ys"
  by (simp add: exits_def)

lemma reconnect_exits: "exits (effects (snd (reconnect E c))) = exits (effects c)"
  by (simp add: reconnect_def exits_def emit_def Let_def split: option.splits sum.splits)

lemma client_open_exits: "exits (effects (snd (client_open E c))) = exits (effects c)"
  by (simp add: client_open_def exits_def emit_def Let_def split: option.splits)

lemma first_open_exits: "exits (effects (snd (first_open E c))) = exits (effects c)"
  by (simp add: first_open_def client_open_exits)

lemma newSession_exits: "exits (effects (snd (newSession E c))) = exits (effects c)"
proof (cases "first_open E c")
  case (Pair r1 c1)
  note fo = this
  have e1: "exits (effects c1) = exits (effects c)"
    using first_open_exits [of E c] fo by simp
  show ?thesis
  proof (cases r1)
    case (Inr s)
    with fo e1 show ?thesis by (simp add: newSession_def)
  next
    case (Inl e)
    show ?thesis
    proof (cases "reconnect E c1")
      case (Pair ro c2)
      have e2: "exits (effects c2) = exits (effects c1)"
        using reconnect_exits [of E c1] Pair by simp
      show ?thesis
        using fo Inl Pair e1 e2 client_open_exits [of E c2]
        by (cases ro) (simp_all add: newSession_def)
    qed
  qed
qed

lemma run_Waiter:
  "case run E (Waiter s) (cmd1, tr) of
     (cmd2, tr') \<Rightarrow>
       exits tr' = exits tr @ [ExitStatus cmd2] \<and>
       Exited cmd2 \<and>
       ExitStatus cmd2 =
         (case session_Wait E tr s of
            None \<Rightarrow> 0
          | Some e \<Rightarrow> (case e of ssh_ExitError st txt \<Rightarrow> st | _ \<Rightarrow> 0)) \<and>
       count_list tr' (SessionClose s) = count_list tr (SessionClose s) + 1 \<and>
       last tr' = SessionClose s"
  by (simp add: run.simps Let_def exits_def SetExited_def exitStatus_of_def
      split: option.splits error.splits)

text \<open>
  Claim C4. \<^verbatim>\<open>Start\<close> itself never writes a completion slot. When no session can
  be acquired, it returns that error and launches nothing. With a session \<open>s\<close>, it
  requests the pty and, if that succeeds, starts the process: when one of the two calls
  answers with an error, that error is returned, nothing is called after it and no
  goroutine is launched; when both succeed, \<^verbatim>\<open>Start\<close> returns no error without
  waiting, and has launched the goroutine on \<open>s\<close>. Whenever that goroutine runs, it
  writes the slot once: with the status of the \<^verbatim>\<open>*ssh.ExitError\<close> when \<^verbatim>\<open>Wait\<close>
  returns one, with 0 when \<^verbatim>\<open>Wait\<close> returns no error, and with 0 for any other error;
  in each case it closes the session, last of all.
\<close>

theorem Start_exit_status:
  assumes "Start E c cmd = ((r, g), c')"
  shows "exits (effects c') = exits (effects c) \<and>
         (case newSession E c of
            (Inl e, c1) \<Rightarrow> r = Some e \<and> g = None \<and> c' = c1
          | (Inr s, c1) \<Rightarrow>
              (case r of
                 Some err \<Rightarrow>
                   g = None \<and>
                   (fresh_events c1 c' =
                      [SetStdio s (Stdin cmd) (Stdout cmd) (Stderr cmd),
                       RequestPty s ''xterm'' 80 40 termModes (Some err)] \<or>
                    fresh_events c1 c' =
                      [SetStdio s (Stdin cmd) (Stdout cmd) (Stderr cmd),
                       RequestPty s ''xterm'' 80 40 termModes None,
                       SessionStart s (Command cmd @ [CHR 0x0A]) (Some err)])
               | None \<Rightarrow>
                   g = Some (Waiter s) \<and>
                   fresh_events c1 c' =
                     [SetStdio s (Stdin cmd) (Stdout cmd) (Stderr cmd),
                      RequestPty s ''xterm'' 80 40 termModes None,
                      SessionStart s (Command cmd @ [CHR 0x0A]) None] \<and>
                   (\<forall>cmd1 tr. case run E (Waiter s) (cmd1, tr) of
                      (cmd2, tr') \<Rightarrow>
                        exits tr' = exits tr @ [ExitStatus cmd2] \<and>
                        Exited cmd2 \<and>
                        ExitStatus cmd2 =
                          (case session_Wait E tr s of
                             None \<Rightarrow> 0
                           | Some e \<Rightarrow> (case e of ssh_ExitError st txt \<Rightarrow> st | _ \<Rightarrow> 0)) \<and>
                        count_list tr' (SessionClose s) = count_list tr (SessionClose s) + 1 \<and>
                        last tr' = SessionClose s)))"
proof (cases "newSession E c")
  case (Pair rs c1)
  note ns = this
  have ex1: "exits (effects c1) = exits (effects c)"
    using newSession_exits [of E c] ns by simp
  show ?thesis
  proof (cases rs)
    case (Inl e)
    with assms ns ex1 show ?thesis
      by (auto simp: Start_def)
  next
    case (Inr s)
    let ?c2 = "emit (SetStdio s (Stdin cmd) (Stdout cmd) (Stderr cmd)) c1"
    let ?p = "session_RequestPty E (effects ?c2) s"
    let ?c3 = "emit (RequestPty s ''xterm'' 80 40 termModes ?p) ?c2"
    let ?line = "Command cmd @ [CHR 0x0A]"
    let ?st = "session_Start E (effects ?c3) s ?line"
    let ?c4 = "emit (SessionStart s ?line ?st) ?c3"
    have ex3: "exits (effects ?c3) = exits (effects c)"
      and ex4: "exits (effects ?c4) = exits (effects c)"
      using ex1 by (simp_all add: emit_def exits_def)
    show ?thesis
    proof (cases ?p)
      case (Some err)
      then have "Start E c cmd = ((Some err, None), ?c3)"
        using ns Inr by (simp add: Start_def Let_def)
      with assms have "r = Some err" "g = None" "c' = ?c3" by simp_all
      with ns Inr ex3 Some show ?thesis
        by (simp add: emit_def fresh_events_def)
    next
      case None
      note pty = this
      show ?thesis
      proof (cases ?st)
        case (Some err)
        then have "Start E c cmd = ((Some err, None), ?c4)"
          using ns Inr pty by (simp add: Start_def Let_def)
        with assms have "r = Some err" "g = None" "c' = ?c4" by simp_all
        with ns Inr ex4 Some pty show ?thesis
          by (simp add: emit_def fresh_events_def)
      next
        case None
        then have "Start E c cmd = ((None, Some (Waiter s)), ?c4)"
          using ns Inr pty by (simp add: Start_def Let_def)
        with assms have "r = None" "g = Some (Waiter s)" "c' = ?c4" by simp_all
        with ns Inr ex4 None pty show ?thesis
          using run_Waiter [where E = E and s = s] by (simp add: emit_def fresh_events_def)
      qed
    qed
  qed
qed

theorem Start_exit_status_witness:
  "Start exits_3 connected exit_3 =
     ((None, Some (Waiter 9)),
      \<lparr>client = Some 8, conn = Some 7,
       effects = [OpenSession 8 (Inr 9), SetStdio 9 0 1 2,
                  RequestPty 9 ''xterm'' 80 40 termModes None,
                  SessionStart 9 (''exit 3'' @ [CHR 0x0A]) None]\<rparr>) \<and>
   session_Wait exits_3 [] 9 = Some (ssh_ExitError 3 ''Process exited with: 3'') \<and>
   ExitStatus (fst (run exits_3 (Waiter 9) (exit_3, []))) = 3 \<and>
   exits (snd (run exits_3 (Waiter 9) (exit_3, []))) = [3] \<and>
   last (snd (run exits_3 (Waiter 9) (exit_3, []))) = SessionClose 9"
proof -
  have h: "Start exits_3 connected exit_3 =
     ((None, Some (Waiter 9)),
      \<lparr>client = Some 8, conn = Some 7,
       effects = [OpenSession 8 (Inr 9), SetStdio 9 0 1 2,
                  RequestPty 9 ''xterm'' 80 40 termModes None,
                  SessionStart 9 (''exit 3'' @ [CHR 0x0A]) None]\<rparr>)"
    by (simp add: Start_def newSession_def first_open_def client_open_def exits_3_def
        connected_def exit_3_def quiet_def emit_def Let_def)
  have ns: "newSession exits_3 connected =
     (Inr 9, \<lparr>client = Some 8, conn = Some 7, effects = [OpenSession 8 (Inr 9)]\<rparr>)"
    by (simp add: newSession_def first_open_def client_open_def exits_3_def
        connected_def quiet_def emit_def Let_def)
  have w: "session_Wait exits_3 [] 9 = Some (ssh_ExitError 3 ''Process exited with: 3'')"
    by (simp add: exits_3_def quiet_def)
  have "\<forall>cmd1 tr. case run exits_3 (Waiter 9) (cmd1, tr) of
          (cmd2, tr') \<Rightarrow>
            exits tr' = exits tr @ [ExitStatus cmd2] \<and>
            Exited cmd2 \<and>
            ExitStatus cmd2 =
              (case session_Wait exits_3 tr 9 of
                 None \<Rightarrow> 0
               | Some e \<Rightarrow> (case e of ssh_ExitError st txt \<Rightarrow> st | _ \<Rightarrow> 0)) \<and>
            count_list tr' (SessionClose 9) = count_list tr (SessionClose 9) + 1 \<and>
            last tr' = SessionClose 9"
    using Start_exit_status [OF h] by (simp add: ns)
  from this [rule_format, of "[]" exit_3]
  have "case run exits_3 (Waiter 9) (exit_3, []) of
          (cmd2, tr') \<Rightarrow>
            exits tr' = exits [] @ [ExitStatus cmd2] \<and>
            Exited cmd2 \<and>
            ExitStatus cmd2 =
              (case session_Wait exits_3 [] 9 of
                 None \<Rightarrow> 0
               | Some e \<Rightarrow> (case e of ssh_ExitError st txt \<Rightarrow> st | _ \<Rightarrow> 0)) \<and>
            count_list tr' (SessionClose 9) = count_list [] (SessionClose 9) + 1 \<and>
            last tr' = SessionClose 9" .
  with h w show ?thesis
    by (simp add: exits_def split: prod.splits)
qed

section \<open>Transfer sessions\<close>


lemma scpSession_transfer_failed:
  assumes "newSession E c = (Inr s, c1)"
    and "session_StdinPipe E (effects c1) s = Inr stdinW"
    and "session_StdoutPipe E (effects c1 @ [StdinPipe s True]) s = Inr stdoutPipe"
    and "session_Start E (effects c1 @ [StdinPipe s True, StdoutPipe s True]) s cmd = None"
    and "f \<lparr>pending = fst stdoutPipe, rerr = snd stdoutPipe, bufsize = 4096,
            wroom = fst stdinW, werr = snd stdinW, wire = []\<rparr> = (Some err, ch)"
  shows "scpSession E c cmd f =
           (Some err,
            c1\<lparr>effects := effects c1 @
               [StdinPipe s True, StdoutPipe s True, SessionStart s cmd None,
                Exchange s (wire ch), StdinClose s, SessionClose s]\<rparr>)"
  using assms
  by (simp add: scpSession_def Let_def emit_def deferred_stdin_def)

lemma wait_result_127:
  "wait_result (Some (ssh_ExitError 127 txt)) = Some (errors_New scp_missing)"
  by (simp add: wait_result_def)

text \<open>
  Claim C8. The claim asks, for every transfer session whose sink exits with status
  127, for the fixed message that SCP failed to start, and the code has the branch for
  it (lines 245 to 250); but the code returns an error of the transfer callback before
  it waits for the sink (lines 224 to 226). Where the remote side has no scp, the shell
  sends nothing and exits with 127: the upload of a file fails on its first
  acknowledgement with the end-of-file error, \<^verbatim>\<open>Wait\<close> is never called, and the
  caller gets \<^verbatim>\<open>EOF\<close> instead of the message. In the same environment a transfer
  that sends nothing (the upload of an empty directory) does reach \<^verbatim>\<open>Wait\<close> and
  returns the message.
\<close>

theorem Upload_without_scp:
  "Upload scp_absent connected ''/tmp/motd'' (''hello'', None) =
     (Some io_EOF,
      \<lparr>client = Some 8, conn = Some 7,
       effects = [OpenSession 8 (Inr 9), StdinPipe 9 True, StdoutPipe 9 True,
                  SessionStart 9 ''scp -vt /tmp'' None,
                  Exchange 9 (map Out (''C0644 5 motd'' @ [CHR 0x0A])),
                  StdinClose 9, SessionClose 9]\<rparr>) \<and>
   session_Wait scp_absent
     [OpenSession 8 (Inr 9), StdinPipe 9 True, StdoutPipe 9 True,
      SessionStart 9 ''scp -vt /tmp'' None,
      Exchange 9 (map Out (''C0644 5 motd'' @ [CHR 0x0A])), StdinClose 9] 9 =
     Some (ssh_ExitError 127 ''Process exited with: 127'') \<and>
   wait_result (Some (ssh_ExitError 127 ''Process exited with: 127'')) =
     Some (errors_New scp_missing) \<and>
   io_EOF \<noteq> errors_New scp_missing \<and>
   fst (scpSession scp_absent connected ''scp -rvt /tmp'' (scpUploadDir scp_absent ''src'' [])) =
     Some (errors_New scp_missing)"
proof -
  have up: "Upload scp_absent connected ''/tmp/motd'' (''hello'', None) =
     (Some io_EOF,
      \<lparr>client = Some 8, conn = Some 7,
       effects = [OpenSession 8 (Inr 9), StdinPipe 9 True, StdoutPipe 9 True,
                  SessionStart 9 ''scp -vt /tmp'' None,
                  Exchange 9 (map Out (''C0644 5 motd'' @ [CHR 0x0A])),
                  StdinClose 9, SessionClose 9]\<rparr>)"
    by (simp add: Upload_def scpSession_def newSession_def first_open_def client_open_def
        scpUploadFile_def checkSCPStatus_def ReadByte_def Write_def file_header_def
        decimal_digit digit_def scp_absent_def quiet_def connected_def emit_def
        deferred_stdin_def unix_paths Let_def)
  have dir: "fst (scpSession scp_absent connected ''scp -rvt /tmp''
                    (scpUploadDir scp_absent ''src'' [])) = Some (errors_New scp_missing)"
    by (simp add: scpSession_def newSession_def first_open_def client_open_def
        scp_absent_def quiet_def connected_def emit_def deferred_stdin_def wait_result_def
        Let_def)
  show ?thesis
    unfolding up dir
    by (simp add: wait_result_127 scp_absent_def quiet_def)
qed

text \<open>
  Claim C9. In every execution of \<^verbatim>\<open>scpSession\<close> that has acquired a session \<open>s\<close>,
  the session is closed exactly once, as the last thing done. The stdin pipe is closed
  exactly once when it has been obtained, and not at all when \<^verbatim>\<open>StdinPipe\<close> failed:
  on the path that reaches \<^verbatim>\<open>Wait\<close> by the explicit close before the wait (the
  deferred close then does nothing), on every path that ends before the wait by the
  deferred close just before the session is closed. When no session could be
  acquired, \<^verbatim>\<open>scpSession\<close> returns that error and does nothing else.
\<close>

theorem scpSession_closes_once:
  assumes "scpSession E c cmd f = (r, c')"
  shows "case newSession E c of
           (Inl e, c1) \<Rightarrow> r = Some e \<and> c' = c1
         | (Inr s, c1) \<Rightarrow>
             count_list (fresh_events c1 c') (SessionClose s) = 1 \<and>
             last (effects c') = SessionClose s \<and>
             count_list (fresh_events c1 c') (StdinClose s) =
               (if StdinPipe s True \<in> set (fresh_events c1 c') then 1 else 0) \<and>
             (\<forall>w. SessionWait s w \<in> set (fresh_events c1 c') \<longrightarrow>
                (\<exists>pre. fresh_events c1 c' =
                   pre @ [StdinClose s, SessionWait s w, SessionClose s])) \<and>
             ((\<forall>w. SessionWait s w \<notin> set (fresh_events c1 c')) \<and>
              StdinPipe s True \<in> set (fresh_events c1 c') \<longrightarrow>
                (\<exists>pre. fresh_events c1 c' = pre @ [StdinClose s, SessionClose s]))"
  using assms
  by (auto simp: scpSession_def Let_def emit_def deferred_stdin_def fresh_events_def
      split: prod.splits sum.splits option.splits)

theorem scpSession_closes_once_witness:
  "scpSession scp_absent connected ''scp -vt /tmp'' (scpUploadFile ''motd'' (''hello'', None)) =
     (Some io_EOF,
      \<lparr>client = Some 8, conn = Some 7,
       effects = [OpenSession 8 (Inr 9), StdinPipe 9 True, StdoutPipe 9 True,
                  SessionStart 9 ''scp -vt /tmp'' None,
                  Exchange 9 (map Out (''C0644 5 motd'' @ [CHR 0x0A])),
                  StdinClose 9, SessionClose 9]\<rparr>) \<and>
   newSession scp_absent connected =
     (Inr 9, \<lparr>client = Some 8, conn = Some 7, effects = [OpenSession 8 (Inr 9)]\<rparr>) \<and>
   count_list
     [StdinPipe 9 True, StdoutPipe 9 True, SessionStart 9 ''scp -vt /tmp'' None,
      Exchange 9 (map Out (''C0644 5 motd'' @ [CHR 0x0A])), StdinClose 9, SessionClose 9]
     (StdinClose 9) = 1 \<and>
   count_list
     [StdinPipe 9 True, StdoutPipe 9 True, SessionStart 9 ''scp -vt /tmp'' None,
      Exchange 9 (map Out (''C0644 5 motd'' @ [CHR 0x0A])), StdinClose 9, SessionClose 9]
     (SessionClose 9) = 1"
proof -
  have ns: "newSession scp_absent connected =
     (Inr 9, \<lparr>client = Some 8, conn = Some 7, effects = [OpenSession 8 (Inr 9)]\<rparr>)"
    by (simp add: newSession_def first_open_def client_open_def scp_absent_def quiet_def
        connected_def emit_def Let_def)
  have h: "scpSession scp_absent connected ''scp -vt /tmp''
             (scpUploadFile ''motd'' (''hello'', None)) =
     (Some io_EOF,
      \<lparr>client = Some 8, conn = Some 7,
       effects = [OpenSession 8 (Inr 9), StdinPipe 9 True, StdoutPipe 9 True,
                  SessionStart 9 ''scp -vt /tmp'' None,
                  Exchange 9 (map Out (''C0644 5 motd'' @ [CHR 0x0A])),
                  StdinClose 9, SessionClose 9]\<rparr>)"
    by (simp add: scpSession_def newSession_def first_open_def client_open_def
        scpUploadFile_def checkSCPStatus_def ReadByte_def Write_def file_header_def
        decimal_digit digit_def scp_absent_def quiet_def connected_def emit_def
        deferred_stdin_def Let_def)
  from scpSession_closes_once [OF h] ns h show ?thesis
    by (simp add: fresh_events_def)
qed

section \<open>Directory upload\<close>






text \<open>
  Claim C10. When the source directory cannot be opened, or its entries cannot be
  read, \<^verbatim>\<open>UploadDir\<close> returns that error and leaves the communicator as it was: its
  connection, its client and the history of calls made to the collaborators, so that
  no session has been opened and no remote command started.
\<close>

theorem UploadDir_local_failure:
  "(os_Open E src = Inl err \<longrightarrow> UploadDir E c dst src excl = (Some err, c)) \<and>
   (os_Open E src = Inr d \<and> listing d = Inl err \<longrightarrow>
      UploadDir E c dst src excl = (Some err, c))"
  by (simp add: UploadDir_def)

theorem UploadDir_local_failure_witness:
  "os_Open quiet ''missing'' = Inl (Foreign ''no such file or directory'') \<and>
   UploadDir quiet connected ''/srv'' ''missing'' [] =
     (Some (Foreign ''no such file or directory''), connected) \<and>
   os_Open tree ''src/a.txt'' = Inr (plain_file ''hi'') \<and>
   listing (plain_file ''hi'') = Inl (Foreign ''readdirent: not a directory'') \<and>
   UploadDir tree connected ''/srv'' ''src/a.txt'' [] =
     (Some (Foreign ''readdirent: not a directory''), connected)"
proof -
  have h1: "os_Open quiet ''missing'' = Inl (Foreign ''no such file or directory'')"
    by (simp add: quiet_def)
  have h2: "os_Open tree ''src/a.txt'' = Inr (plain_file ''hi'') \<and>
            listing (plain_file ''hi'') = Inl (Foreign ''readdirent: not a directory'')"
    by (simp add: tree_def quiet_def plain_file_def)
  have a: "UploadDir quiet connected ''/srv'' ''missing'' [] =
             (Some (Foreign ''no such file or directory''), connected)"
    using UploadDir_local_failure [of quiet "''missing''" "Foreign ''no such file or directory''"
        connected "''/srv''" "[]"] h1
    by blast
  have b: "UploadDir tree connected ''/srv'' ''src/a.txt'' [] =
             (Some (Foreign ''readdirent: not a directory''), connected)"
    using UploadDir_local_failure [where E = tree and src = "''src/a.txt''"
        and d = "plain_file ''hi''" and err = "Foreign ''readdirent: not a directory''"
        and c = connected and dst = "''/srv''" and excl = "[]"] h2
    by blast
  from h1 h2 a b show ?thesis
    by blast
qed

end
